theory Spec2Isabelle
  imports Main "HOL-Library.AList"
begin

text \<open>
  The dispatch pipeline, the handler registry and the mock selector of
  \<^verbatim>\<open>src/backend.ts\<close> (class \<^verbatim>\<open>OpenAPIBackend\<close>), as functions on an explicit backend
  state. A method that mutates the instance returns the instance after it; a throw is an
  error value; what a method does to the outside world is an ordered log. Line numbers
  refer to \<^verbatim>\<open>src/backend.ts\<close>.
\<close>

section \<open>JavaScript values\<close>

text \<open>
  The values that flow through \<^verbatim>\<open>src/backend.ts\<close> untyped (\<^verbatim>\<open>any\<close>): handler
  arguments, handler results, examples, schemas and mocks. Numbers are integers here
  (status codes and JSON literals); \<^verbatim>\<open>NaN\<close> and fractions are left out. Two values
  are not data: \<open>JContext\<close> is the context object of the request, which a handler
  may give back, and \<open>JBoxed v\<close> is the wrapper object of the primitive \<open>v\<close>.
\<close>

datatype jsvalue =
    JUndefined
  | JNull
  | JBool bool
  | JNum int
  | JStr string
  | JArr "jsvalue list"
  | JObj "(string \<times> jsvalue) list"
  | JContext
  | JBoxed jsvalue

text \<open>What \<^verbatim>\<open>if (v)\<close>, \<^verbatim>\<open>!v\<close>, \<^verbatim>\<open>a || b\<close> and \<^verbatim>\<open>a && b\<close> test.\<close>

fun truthy :: "jsvalue \<Rightarrow> bool" where
  "truthy JUndefined = False"
| "truthy JNull = False"
| "truthy (JBool b) = b"
| "truthy (JNum n) = (n \<noteq> 0)"
| "truthy (JStr s) = (s \<noteq> [])"
| "truthy (JArr _) = True"
| "truthy (JObj _) = True"
| "truthy JContext = True"
| "truthy (JBoxed _) = True"

fun is_object :: "jsvalue \<Rightarrow> bool" where
  "is_object (JArr _) = True"
| "is_object (JObj _) = True"
| "is_object JContext = True"
| "is_object (JBoxed _) = True"
| "is_object _ = False"

text \<open>\<^verbatim>\<open>Object(v)\<close>: a new object for nothing, the object itself, a wrapper for a primitive.\<close>

fun toObject :: "jsvalue \<Rightarrow> jsvalue" where
  "toObject JUndefined = JObj []"
| "toObject JNull = JObj []"
| "toObject (JBool b) = JBoxed (JBool b)"
| "toObject (JNum n) = JBoxed (JNum n)"
| "toObject (JStr s) = JBoxed (JStr s)"
| "toObject (JArr xs) = JArr xs"
| "toObject (JObj ps) = JObj ps"
| "toObject JContext = JContext"
| "toObject (JBoxed v) = JBoxed v"

text \<open>
  A number used as a property key (\<^verbatim>\<open>responses[opts.code]\<close>) is converted to its
  decimal string.
\<close>

function string_of_nat :: "nat \<Rightarrow> string" where
  "string_of_nat n =
     (if n < 10 then [''0123456789'' ! n]
      else string_of_nat (n div 10) @ [''0123456789'' ! (n mod 10)])"
  by pat_completeness auto
termination
  by (relation "measure id") auto

declare string_of_nat.simps [simp del]

definition string_of_number :: "int \<Rightarrow> string" where
  "string_of_number i =
     (if i < 0 then ''-'' @ string_of_nat (nat (- i)) else string_of_nat (nat i))"

text \<open>Errors are values: what a \<^verbatim>\<open>throw\<close> or a rejected promise carries.\<close>

datatype error =
    Error string
  | InvalidDocument "jsvalue list"
  | TypeError string
  | Thrown jsvalue

section \<open>Objects\<close>

text \<open>
  A JavaScript object is the list of its own properties in the order they were created
  (for a parsed document, the order of declaration), each key once. \<^verbatim>\<open>Object.keys\<close>
  and \<^verbatim>\<open>for ... in\<close> do not follow that order: the keys that are array indices (the
  decimal numerals of 0 to 4294967294, without a leading zero) come first, in ascending
  numeric order, and the other keys follow in the order of creation.
\<close>

definition is_digit :: "char \<Rightarrow> bool" where
  "is_digit c = (c \<in> set ''0123456789'')"

definition digit_value :: "char \<Rightarrow> nat" where
  "digit_value c = length (takeWhile (\<lambda>d. d \<noteq> c) ''0123456789'')"

definition index_value :: "string \<Rightarrow> nat" where
  "index_value s = foldl (\<lambda>n c. 10 * n + digit_value c) 0 s"

definition is_index :: "string \<Rightarrow> bool" where
  "is_index s =
     (s \<noteq> [] \<and> list_all is_digit s \<and> (s = ''0'' \<or> hd s \<noteq> CHR ''0'')
      \<and> index_value s < 4294967295)"

definition objectKeys :: "(string \<times> 'v) list \<Rightarrow> string list" where
  "objectKeys obj =
     sort_key index_value (filter is_index (map fst obj))
     @ filter (\<lambda>k. \<not> is_index k) (map fst obj)"

section \<open>The contract document as the backend reads it\<close>

text \<open>
  \<^verbatim>\<open>Operation\<close>, \<^verbatim>\<open>Request\<close> and \<^verbatim>\<open>ParsedRequest\<close> are declared in
  \<^verbatim>\<open>router.ts\<close> and the OpenAPI object types in \<^verbatim>\<open>openapi-types\<close>; the records
  below carry the fields \<^verbatim>\<open>backend.ts\<close> reads. A field that may be
  \<^verbatim>\<open>undefined\<close> is an option (or \<^const>\<open>JUndefined\<close> for an untyped value).
\<close>

record example_object =
  evalue :: jsvalue

record media_type_object =
  example :: jsvalue
  examples :: "(string \<times> example_object) list option"
  schema :: jsvalue

record response_object =
  content :: "(string \<times> media_type_object) list option"

record operation =
  operationId :: "string option"
  path :: string
  httpMethod :: string
  responses :: "(string \<times> response_object) list option"

record request =
  req_method :: string
  req_path :: string
  req_headers :: "(string \<times> string) list"
  req_query :: jsvalue
  req_body :: jsvalue

record parsed_request =
  pr_method :: string
  pr_path :: string
  pr_headers :: "(string \<times> string) list"
  pr_query :: jsvalue
  pr_params :: "(string \<times> string) list"
  pr_cookies :: "(string \<times> string) list"
  pr_requestBody :: jsvalue

record validation_result =
  valid :: bool
  errors :: "jsvalue list option"

text \<open>
  \<^verbatim>\<open>interface Context\<close>. The field \<^verbatim>\<open>api\<close>, a reference back to the backend, is
  left out: handlers and predicates are taken by what they return.
\<close>

record "context" =
  request :: "parsed_request option"
  operation :: "operation option"
  validation :: "validation_result option"
  response :: "jsvalue option"

section \<open>Collaborators\<close>

text \<open>
  \<^verbatim>\<open>router.ts\<close>, \<^verbatim>\<open>validation.ts\<close> and \<^verbatim>\<open>utils.ts\<close> are not among the sources,
  and the parser, the document validator and the mock generator are libraries. They are
  parameters: the router and validator objects are records of their methods, the
  module-level functions are the fields of \<open>env\<close>.
\<close>

record router =
  parseRequest :: "request \<Rightarrow> string option \<Rightarrow> parsed_request"
  matchOperation :: "request \<Rightarrow> operation option"
  getOperation :: "string \<Rightarrow> operation option"

record validator =
  validateRequest :: "request \<Rightarrow> operation \<Rightarrow> validation_result"

record env =
  parse :: "jsvalue \<Rightarrow> error + jsvalue"
  validateOpenAPI :: "jsvalue \<Rightarrow> bool \<times> jsvalue list"
  dereference :: "jsvalue \<Rightarrow> error + jsvalue"
  newRouter :: "jsvalue \<Rightarrow> string \<Rightarrow> router"
  newValidator :: "jsvalue \<Rightarrow> router \<Rightarrow> validator"
  findDefaultStatusCodeMatch ::
    "(string \<times> response_object) list \<Rightarrow> int \<times> response_object option"
  mock :: "jsvalue \<Rightarrow> jsvalue"

section \<open>The backend\<close>

text \<open>
  \<^verbatim>\<open>type Handler\<close>: a handler is called with the context first, or without it, and
  returns a value or throws (a rejected promise is a throw to the awaiting caller). A
  table entry may also hold something that is not a function.
\<close>

datatype hval =
    Fn "context option \<Rightarrow> jsvalue list \<Rightarrow> error + jsvalue"
  | NonFn jsvalue

fun is_function :: "hval \<Rightarrow> bool" where
  "is_function (Fn _) = True"
| "is_function (NonFn _) = False"

fun truthy_h :: "hval \<Rightarrow> bool" where
  "truthy_h (Fn _) = True"
| "truthy_h (NonFn v) = truthy v"

text \<open>
  The handler table and the objects of the parsed document are plain objects: a read
  \<^verbatim>\<open>obj[k]\<close> that finds no own property \<open>k\<close> goes on to \<^verbatim>\<open>Object.prototype\<close>.
  Its members are functions, but for \<^verbatim>\<open>__proto__\<close>, which reads as the prototype
  object itself; none of them is enumerable. Called the way \<^verbatim>\<open>handleRequest\<close> calls a
  handler, a member has no \<^verbatim>\<open>this\<close>: \<^verbatim>\<open>toString\<close> answers for \<^verbatim>\<open>undefined\<close>,
  \<^verbatim>\<open>constructor\<close> (the function \<^verbatim>\<open>Object\<close>) gives back its first argument as an
  object, \<^verbatim>\<open>isPrototypeOf\<close> answers \<^verbatim>\<open>false\<close> for a first argument that is no
  object, and every other call throws a \<^verbatim>\<open>TypeError\<close>.
\<close>

definition objectConstructor :: "context option \<Rightarrow> jsvalue list \<Rightarrow> error + jsvalue" where
  "objectConstructor c args =
     Inr (case c of
            Some _ \<Rightarrow> JContext
          | None \<Rightarrow> (case args of [] \<Rightarrow> JObj [] | a # _ \<Rightarrow> toObject a))"

definition withoutThis :: "context option \<Rightarrow> jsvalue list \<Rightarrow> error + jsvalue" where
  "withoutThis c args = Inl (TypeError ''cannot convert undefined or null to object'')"

definition isPrototypeOf :: "context option \<Rightarrow> jsvalue list \<Rightarrow> error + jsvalue" where
  "isPrototypeOf c args =
     (case c of
        Some _ \<Rightarrow> withoutThis c args
      | None \<Rightarrow>
          (case args of
             [] \<Rightarrow> Inr (JBool False)
           | a # _ \<Rightarrow> if is_object a then withoutThis c args else Inr (JBool False)))"

definition objectPrototype :: "(string \<times> hval) list" where
  "objectPrototype =
     [(''constructor'', Fn objectConstructor),
      (''__defineGetter__'', Fn withoutThis),
      (''__defineSetter__'', Fn withoutThis),
      (''hasOwnProperty'', Fn withoutThis),
      (''__lookupGetter__'', Fn withoutThis),
      (''__lookupSetter__'', Fn withoutThis),
      (''isPrototypeOf'', Fn isPrototypeOf),
      (''propertyIsEnumerable'', Fn withoutThis),
      (''toString'', Fn (\<lambda>c args. Inr (JStr ''[object Undefined]''))),
      (''valueOf'', Fn withoutThis),
      (''__proto__'', NonFn (JObj [])),
      (''toLocaleString'', Fn withoutThis)]"

definition inherited :: "string \<Rightarrow> bool" where
  "inherited k = (map_of objectPrototype k \<noteq> None)"

text \<open>
  Reading \<^verbatim>\<open>obj[k]\<close> on an object of the document: the own property, or an inherited
  member, or \<^verbatim>\<open>undefined\<close>. An inherited member is truthy and has none of the
  properties the backend reads from a document object.
\<close>

datatype 'v property =
    Own 'v
  | Inherited
  | Missing

definition getProperty :: "(string \<times> 'v) list \<Rightarrow> string \<Rightarrow> 'v property" where
  "getProperty obj k =
     (case map_of obj k of
        Some v \<Rightarrow> Own v
      | None \<Rightarrow> if inherited k then Inherited else Missing)"

text \<open>\<^verbatim>\<open>validate: boolean | BoolPredicate\<close>.\<close>

datatype validate_opt =
    VBool bool
  | VPred "context \<Rightarrow> jsvalue list \<Rightarrow> bool"

text \<open>
  The fields of the class that the modelled methods read or write; \<^verbatim>\<open>definition\<close> is
  \<open>definition_doc\<close> here, and \<^verbatim>\<open>ajvOpts\<close> and \<^verbatim>\<open>schemas\<close>, which only the
  validator's constructor sees, are left out. A field is \<^const>\<open>JUndefined\<close>,
  \<^const>\<open>None\<close> or \<^const>\<open>False\<close> until it is assigned.
\<close>

record backend =
  document :: jsvalue
  inputDocument :: jsvalue
  definition_doc :: jsvalue
  apiRoot :: string
  initalized :: bool
  strict :: bool
  validate :: validate_opt
  withContext :: bool
  handlers :: "(string \<times> hval) list"
  router :: "router option"
  validator :: "validator option"

definition allowedHandlers :: "string list" where
  "allowedHandlers = [''notFound'', ''notImplemented'', ''validationFail'', ''postResponseHandler'']"

text \<open>
  \<^verbatim>\<open>this.handlers[k]\<close>: the own entry, or the inherited member, or \<^verbatim>\<open>undefined\<close>.
  The table is a plain object, as the constructor's default and an object literal are.
\<close>

definition handler_at :: "backend \<Rightarrow> string \<Rightarrow> hval" where
  "handler_at b k =
     (case map_of (handlers b) k of
        Some h \<Rightarrow> h
      | None \<Rightarrow> (case map_of objectPrototype k of Some h \<Rightarrow> h | None \<Rightarrow> NonFn JUndefined))"

text \<open>The table has an own truthy entry under \<open>k\<close>.\<close>

definition registered :: "backend \<Rightarrow> string \<Rightarrow> bool" where
  "registered b k = (case map_of (handlers b) k of None \<Rightarrow> False | Some h \<Rightarrow> truthy_h h)"

section \<open>mockResponseForOperation\<close>

record mock_opts =
  opt_code :: "int option"
  opt_mediaType :: "string option"
  opt_example :: "string option"

text \<open>An option string as a condition: absent and empty are both falsy.\<close>

fun given :: "string option \<Rightarrow> bool" where
  "given None = False"
| "given (Some s) = (s \<noteq> [])"

definition defaultMock :: jsvalue where
  "defaultMock = JObj []"

text \<open>Lines 358--371: the status code and the response it selects.\<close>

definition resolveStatus ::
  "env \<Rightarrow> (string \<times> response_object) list \<Rightarrow> mock_opts \<Rightarrow> int \<times> response_object option" where
  "resolveStatus env rs opts =
     (case opt_code opts of
        Some c \<Rightarrow>
          (if c \<noteq> 0 then
             (case getProperty rs (string_of_number c) of
                Own resp \<Rightarrow> (c, Some resp)
              | Inherited \<Rightarrow> (c, Some \<lparr>content = None\<rparr>)
              | Missing \<Rightarrow> findDefaultStatusCodeMatch env rs)
           else findDefaultStatusCodeMatch env rs)
      | None \<Rightarrow> findDefaultStatusCodeMatch env rs)"

text \<open>Lines 378--382: the media type name and the entry of the content map.\<close>

definition mediaTypeOf :: "mock_opts \<Rightarrow> string" where
  "mediaTypeOf opts =
     (if given (opt_mediaType opts) then the (opt_mediaType opts) else ''application/json'')"

text \<open>An inherited member read as a media type entry.\<close>

definition memberEntry :: media_type_object where
  "memberEntry = \<lparr>example = JUndefined, examples = None, schema = JUndefined\<rparr>"

definition resolveMedia ::
  "(string \<times> media_type_object) list \<Rightarrow> mock_opts \<Rightarrow> media_type_object option" where
  "resolveMedia cont opts =
     (case getProperty cont (mediaTypeOf opts) of
        Own m \<Rightarrow> Some m
      | Inherited \<Rightarrow> Some memberEntry
      | Missing \<Rightarrow> (case objectKeys cont of [] \<Rightarrow> None | k # _ \<Rightarrow> map_of cont k))"

text \<open>
  Lines 350--385: the status and the media type entry the mock is taken from. Every
  early return of these lines gives \<^verbatim>\<open>{ status, mock: defaultMock }\<close> with the status
  as it stands, which is the result without an entry here.
\<close>

definition selectMedia ::
  "env \<Rightarrow> router \<Rightarrow> string \<Rightarrow> mock_opts \<Rightarrow> int \<times> media_type_object option" where
  "selectMedia env r opId opts =
     (case getOperation r opId of
        None \<Rightarrow> (200, None)
      | Some opn \<Rightarrow>
          (case responses opn of
             None \<Rightarrow> (200, None)
           | Some rs \<Rightarrow>
               (case resolveStatus env rs opts of
                  (status, None) \<Rightarrow> (status, None)
                | (status, Some resp) \<Rightarrow>
                    (case content resp of
                       None \<Rightarrow> (status, None)
                     | Some cont \<Rightarrow> (status, resolveMedia cont opts)))))"

text \<open>
  Lines 389--390: \<^verbatim>\<open>examples[opts.example]\<close>, when the option is given and the entry
  has examples.
\<close>

definition namedExample :: "media_type_object \<Rightarrow> mock_opts \<Rightarrow> example_object option" where
  "namedExample m opts =
     (if given (opt_example opts) then
        (case examples m of
           None \<Rightarrow> None
         | Some exs \<Rightarrow>
             (case getProperty exs (the (opt_example opts)) of
                Own eo \<Rightarrow> Some eo
              | Inherited \<Rightarrow> Some \<lparr>evalue = JUndefined\<rparr>
              | Missing \<Rightarrow> None))
      else None)"

text \<open>
  Lines 396--413: the inline example, the first named example, the schema, the default.
  For an empty examples object \<^verbatim>\<open>examples[Object.keys(examples)[0]]\<close> is
  \<^verbatim>\<open>undefined\<close>, and reading its \<^verbatim>\<open>value\<close> throws.
\<close>

definition unnamedMock :: "env \<Rightarrow> int \<Rightarrow> media_type_object \<Rightarrow> error + (int \<times> jsvalue)" where
  "unnamedMock env status m =
     (if truthy (example m) then Inr (status, example m)
      else
        (case examples m of
           Some exs \<Rightarrow>
             (case objectKeys exs of
                [] \<Rightarrow> Inl (TypeError ''cannot read property value of undefined'')
              | k # _ \<Rightarrow>
                  (case map_of exs k of
                     None \<Rightarrow> Inl (TypeError ''cannot read property value of undefined'')
                   | Some eo \<Rightarrow> Inr (status, evalue eo)))
         | None \<Rightarrow>
             if truthy (schema m) then Inr (status, mock env (schema m))
             else Inr (status, defaultMock)))"

text \<open>Lines 386--413: the mock body from the media type entry.\<close>

definition pickMock ::
  "env \<Rightarrow> int \<Rightarrow> media_type_object \<Rightarrow> mock_opts \<Rightarrow> error + (int \<times> jsvalue)" where
  "pickMock env status m opts =
     (case namedExample m opts of
        None \<Rightarrow> unnamedMock env status m
      | Some eo \<Rightarrow>
          if truthy (evalue eo) then Inr (status, evalue eo)
          else unnamedMock env status m)"

definition mockResponseForOperation ::
  "env \<Rightarrow> backend \<Rightarrow> string \<Rightarrow> mock_opts \<Rightarrow> error + (int \<times> jsvalue)" where
  "mockResponseForOperation env b opId opts =
     (case router b of
        None \<Rightarrow> Inl (TypeError ''cannot read property getOperation of undefined'')
      | Some r \<Rightarrow>
          (case selectMedia env r opId opts of
             (status, None) \<Rightarrow> Inr (status, defaultMock)
           | (status, Some m) \<Rightarrow> pickMock env status m opts))"

section \<open>Effects\<close>

text \<open>
  What a call leaves behind besides its result: the backend after it, and the ordered
  log of what it did to the outside (console warnings, calls of the request validator,
  calls of handlers). A handler call records the place in \<^verbatim>\<open>handleRequest\<close> that made
  it, the table key the handler was read from, and the arguments: the context as it was
  at the call when the backend passes one, and the caller's extra arguments.
\<close>

datatype site =
    NotFoundSite
  | ValidationFailSite
  | NotImplementedSite
  | RouteSite
  | PostResponseSite

datatype event =
    Warn string
  | WarnError error
  | Validate request operation
  | Call site string "context option" "jsvalue list"

record 'a run =
  st :: backend
  log :: "event list"
  res :: "error + 'a"

text \<open>The handler calls of a log made at one place, and the validator calls.\<close>

fun is_call_at :: "site \<Rightarrow> event \<Rightarrow> bool" where
  "is_call_at s (Call s' _ _ _) = (s' = s)"
| "is_call_at s _ = False"

definition calls_at :: "site \<Rightarrow> event list \<Rightarrow> event list" where
  "calls_at s l = filter (is_call_at s) l"

fun is_validate :: "event \<Rightarrow> bool" where
  "is_validate (Validate _ _) = True"
| "is_validate _ = False"

fun is_warning :: "event \<Rightarrow> bool" where
  "is_warning (Warn _) = True"
| "is_warning (WarnError _) = True"
| "is_warning _ = False"

text \<open>The validation field of the context a handler call was given, where it got one.\<close>

fun seen_validation :: "event \<Rightarrow> validation_result option" where
  "seen_validation (Call _ _ (Some c) _) = validation c"
| "seen_validation _ = None"

section \<open>registerHandler and register\<close>

text \<open>
  Line 286, \<^verbatim>\<open>this.handlers[operationId] = handler\<close>, with the warnings of the call: an
  existing key keeps its place in the order of creation, a new key goes last.
\<close>

definition store :: "backend \<Rightarrow> string \<Rightarrow> hval \<Rightarrow> event list \<Rightarrow> unit run" where
  "store b opId h l =
     \<lparr>st = b\<lparr>handlers := AList.update opId h (handlers b)\<rparr>, log = l, res = Inr ()\<rparr>"

text \<open>Lines 265--287. Every throw comes before the assignment.\<close>

definition registerHandler :: "backend \<Rightarrow> string \<Rightarrow> hval \<Rightarrow> unit run" where
  "registerHandler b opId h =
     (if \<not> is_function h
      then \<lparr>st = b, log = [], res = Inl (Error ''Handler should be a function'')\<rparr>
      else if initalized b then
        (case router b of
           None \<Rightarrow>
             \<lparr>st = b, log = [],
              res = Inl (TypeError ''cannot read property getOperation of undefined'')\<rparr>
         | Some r \<Rightarrow>
             if getOperation r opId = None \<and> opId \<notin> set allowedHandlers then
               (if strict b
                then \<lparr>st = b, log = [],
                      res = Inl (Error (''Unknown operationId '' @ opId
                                        @ ''. Refusing to register handler''))\<rparr>
                else store b opId h [Warn (''Unknown operationId '' @ opId)])
             else store b opId h [])
      else store b opId h [])"

text \<open>
  The loop of the bulk \<^verbatim>\<open>register\<close>: \<^verbatim>\<open>for (const operationId in handlers)\<close> over
  the keys of the argument object \<open>hs\<close>, reading \<^verbatim>\<open>handlers[operationId]\<close> at each;
  a throw ends it with what was done so far. When the argument is the table itself, as
  in \<^verbatim>\<open>init\<close>, every assignment writes back the entry just read, so that reading
  from \<open>hs\<close> and reading from the table agree.
\<close>

fun registerEach :: "backend \<Rightarrow> (string \<times> hval) list \<Rightarrow> string list \<Rightarrow> unit run" where
  "registerEach b hs [] = \<lparr>st = b, log = [], res = Inr ()\<rparr>"
| "registerEach b hs (k # ks) =
     (case map_of hs k of
        None \<Rightarrow> registerEach b hs ks
      | Some h \<Rightarrow>
          if truthy_h h then
            (let r1 = registerHandler b k h in
             case res r1 of
               Inl e \<Rightarrow> r1
             | Inr _ \<Rightarrow>
                 (let r2 = registerEach (st r1) hs ks
                  in r2\<lparr>log := log r1 @ log r2\<rparr>))
          else registerEach b hs ks)"

datatype register_args =
    Single string hval
  | Bulk "(string \<times> hval) list"

fun register :: "backend \<Rightarrow> register_args \<Rightarrow> unit run" where
  "register b (Single opId h) = registerHandler b opId h"
| "register b (Bulk hs) = registerEach b hs (objectKeys hs)"

section \<open>init\<close>

text \<open>Lines 422--429; the error carries the validation errors the message lists.\<close>

definition validateDefinition :: "env \<Rightarrow> backend \<Rightarrow> error + jsvalue" where
  "validateDefinition env b =
     (case validateOpenAPI env (document b) of
        (ok, errs) \<Rightarrow> if \<not> ok then Inl (InvalidDocument errs) else Inr (document b))"

text \<open>
  The \<^verbatim>\<open>try\<close> block of \<^verbatim>\<open>init\<close>: the backend with the fields assigned before any
  throw, and the error caught, if any.
\<close>

definition loadDocument :: "env \<Rightarrow> backend \<Rightarrow> backend \<times> error option" where
  "loadDocument env b =
     (case parse env (inputDocument b) of
        Inl e \<Rightarrow> (b, Some e)
      | Inr doc \<Rightarrow>
          (let b1 = b\<lparr>document := doc\<rparr> in
           case validateDefinition env b1 of
             Inl e \<Rightarrow> (b1, Some e)
           | Inr _ \<Rightarrow>
               (case dereference env doc of
                  Inl e \<Rightarrow> (b1, Some e)
                | Inr d \<Rightarrow> (b1\<lparr>definition_doc := d\<rparr>, None))))"

text \<open>
  After the \<^verbatim>\<open>try\<close> block: router, validator, the flag, then the registration of
  the table's own entries (\<^verbatim>\<open>this.register(this.handlers)\<close>; the table is truthy).
\<close>

definition finishInit :: "env \<Rightarrow> backend \<Rightarrow> event list \<Rightarrow> unit run" where
  "finishInit env b l =
     (let r = newRouter env (definition_doc b) (apiRoot b);
          b1 = b\<lparr>router := Some r\<rparr>;
          b2 = b1\<lparr>validator := Some (newValidator env (definition_doc b1) r)\<rparr>;
          b3 = b2\<lparr>initalized := True\<rparr>;
          r1 = register b3 (Bulk (handlers b3))
      in r1\<lparr>log := l @ log r1\<rparr>)"

definition init :: "env \<Rightarrow> backend \<Rightarrow> unit run" where
  "init env b =
     (case loadDocument env b of
        (b1, Some e) \<Rightarrow>
          if strict b1 then \<lparr>st = b1, log = [], res = Inl e\<rparr>
          else finishInit env b1 [WarnError e]
      | (b1, None) \<Rightarrow> finishInit env b1 [])"

section \<open>handleRequest\<close>

text \<open>\<^verbatim>\<open>this.handlers[k1] || this.handlers[k2]\<close>: the key whose entry is taken.\<close>

definition either_key :: "backend \<Rightarrow> string \<Rightarrow> string \<Rightarrow> string" where
  "either_key b k1 k2 = (if truthy_h (handler_at b k1) then k1 else k2)"

text \<open>
  \<^verbatim>\<open>this.withContext ? h(context, ...handlerArgs) : h(...handlerArgs)\<close> for the
  entry under key \<open>k\<close>; calling what is not a function throws.
\<close>

definition invoke ::
  "backend \<Rightarrow> site \<Rightarrow> string \<Rightarrow> context \<Rightarrow> jsvalue list \<Rightarrow> event list \<times> (error + jsvalue)" where
  "invoke b s k ctx args =
     (case handler_at b k of
        Fn f \<Rightarrow>
          (let c = (if withContext b then Some ctx else None)
           in ([Call s k c args], f c args))
      | NonFn _ \<Rightarrow> ([], Inl (TypeError ''handler is not a function'')))"

text \<open>Lines 198--203.\<close>

definition notFoundStage ::
  "backend \<Rightarrow> context \<Rightarrow> jsvalue list \<Rightarrow> event list \<times> (error + jsvalue)" where
  "notFoundStage b ctx args =
     (let k = either_key b ''404'' ''notFound'' in
      if \<not> truthy_h (handler_at b k)
      then ([], Inl (Error ''404-notFound: no route matches request''))
      else invoke b NotFoundSite k ctx args)"

text \<open>Lines 229--243.\<close>

definition routeStage ::
  "backend \<Rightarrow> string \<Rightarrow> context \<Rightarrow> jsvalue list \<Rightarrow> event list \<times> (error + jsvalue)" where
  "routeStage b opId ctx args =
     (if \<not> truthy_h (handler_at b opId) then
        (let k = either_key b ''501'' ''notImplemented'' in
         if \<not> truthy_h (handler_at b k)
         then ([], Inl (Error (''501-notImplemented: '' @ opId @ '' no handler registered'')))
         else invoke b NotImplementedSite k ctx args)
      else invoke b RouteSite opId ctx args)"

text \<open>Lines 211--212.\<close>

definition gate :: "backend \<Rightarrow> context \<Rightarrow> jsvalue list \<Rightarrow> bool" where
  "gate b ctx args = (case validate b of VPred p \<Rightarrow> p ctx args | VBool v \<Rightarrow> v)"

text \<open>Lines 210--243, from the context with the matched operation \<open>opn\<close>.\<close>

definition validateStage ::
  "backend \<Rightarrow> request \<Rightarrow> operation \<Rightarrow> string \<Rightarrow> context \<Rightarrow> jsvalue list
     \<Rightarrow> context \<times> event list \<times> (error + jsvalue)" where
  "validateStage b req opn opId ctx args =
     (if gate b ctx args then
        (case validator b of
           None \<Rightarrow> (ctx, [], Inl (TypeError ''cannot read property validateRequest of undefined''))
         | Some v \<Rightarrow>
             (let vr = validateRequest v req opn;
                  ctx1 = ctx\<lparr>validation := Some vr\<rparr>
              in if errors vr \<noteq> None \<and> truthy_h (handler_at b ''validationFail'')
                 then (case invoke b ValidationFailSite ''validationFail'' ctx1 args of
                         (evs, out) \<Rightarrow> (ctx1, Validate req opn # evs, out))
                 else (case routeStage b opId ctx1 args of
                         (evs, out) \<Rightarrow> (ctx1, Validate req opn # evs, out))))
      else (case routeStage b opId ctx args of (evs, out) \<Rightarrow> (ctx, evs, out)))"

text \<open>
  The context after lines 193--196 (request parsed, operation matched) and after line
  208 (request parsed again with the matched path).
\<close>

definition routedContext :: "router \<Rightarrow> request \<Rightarrow> context" where
  "routedContext r req =
     \<lparr>request = Some (parseRequest r req None), operation = matchOperation r req,
      validation = None, response = None\<rparr>"

definition matchedContext :: "router \<Rightarrow> request \<Rightarrow> operation \<Rightarrow> context" where
  "matchedContext r req opn =
     (routedContext r req)\<lparr>request := Some (parseRequest r req (Some (path opn)))\<rparr>"

text \<open>
  The inner asynchronous function (lines 191--244): the context as it leaves it, the
  calls made, and the response or the error.
\<close>

definition inner ::
  "backend \<Rightarrow> router \<Rightarrow> request \<Rightarrow> jsvalue list \<Rightarrow> context \<times> event list \<times> (error + jsvalue)" where
  "inner b r req args =
     (let ctx = routedContext r req
      in case operation ctx of
           None \<Rightarrow> (case notFoundStage b ctx args of (evs, out) \<Rightarrow> (ctx, evs, out))
         | Some opn \<Rightarrow>
             if \<not> given (operationId opn)
             then (case notFoundStage b ctx args of (evs, out) \<Rightarrow> (ctx, evs, out))
             else validateStage b req opn (the (operationId opn)) (matchedContext r req opn) args)"

text \<open>Lines 182--185: initialise on the first request.\<close>

definition ensureInit :: "env \<Rightarrow> backend \<Rightarrow> unit run" where
  "ensureInit env b =
     (if \<not> initalized b then init env b else \<lparr>st = b, log = [], res = Inr ()\<rparr>)"

text \<open>Lines 246--255: the post response handler, given what the inner function left.\<close>

definition postStage ::
  "backend \<Rightarrow> event list \<Rightarrow> jsvalue list \<Rightarrow> context \<times> event list \<times> (error + jsvalue)
     \<Rightarrow> jsvalue run" where
  "postStage b l args i =
     (case i of
        (ctx, evs, Inl e) \<Rightarrow> \<lparr>st = b, log = l @ evs, res = Inl e\<rparr>
      | (ctx, evs, Inr resp) \<Rightarrow>
          if truthy_h (handler_at b ''postResponseHandler'') then
            (case invoke b PostResponseSite ''postResponseHandler''
                    (ctx\<lparr>response := Some resp\<rparr>) args of
               (evs', out) \<Rightarrow> \<lparr>st = b, log = l @ evs @ evs', res = out\<rparr>)
          else \<lparr>st = b, log = l @ evs, res = Inr resp\<rparr>)"

definition handleRequest :: "env \<Rightarrow> backend \<Rightarrow> request \<Rightarrow> jsvalue list \<Rightarrow> jsvalue run" where
  "handleRequest env b0 req args =
     (let i = ensureInit env b0 in
      case res i of
        Inl e \<Rightarrow> \<lparr>st = st i, log = log i, res = Inl e\<rparr>
      | Inr _ \<Rightarrow>
          (case router (st i) of
             None \<Rightarrow>
               \<lparr>st = st i, log = log i,
                res = Inl (TypeError ''cannot read property parseRequest of undefined'')\<rparr>
           | Some r \<Rightarrow> postStage (st i) (log i) args (inner (st i) r req args)))"

section \<open>A pet store\<close>

text \<open>
  A small contract and its collaborators, to run the definitions on: \<^verbatim>\<open>GET /pets/{id}\<close>
  is \<^verbatim>\<open>getPetById\<close>, \<^verbatim>\<open>GET /pets\<close> is \<^verbatim>\<open>listPets\<close>. The router matches the one
  request path \<^verbatim>\<open>/pets/abc\<close>, and the validator of this store rejects every request.
\<close>

definition onePet :: media_type_object where
  "onePet =
     \<lparr>example = JUndefined, examples = None, schema = JObj [(''type'', JStr ''object'')]\<rparr>"

definition getPetById :: operation where
  "getPetById =
     \<lparr>operationId = Some ''getPetById'', path = ''/pets/{id}'', httpMethod = ''get'',
      responses = Some
        [(''200'', \<lparr>content = Some [(''application/json'', onePet)]\<rparr>),
         (''404'', \<lparr>content = None\<rparr>)]\<rparr>"

definition plainPets :: media_type_object where
  "plainPets = \<lparr>example = JStr ''Rex, Tom'', examples = None, schema = JUndefined\<rparr>"

definition jsonPets :: media_type_object where
  "jsonPets =
     \<lparr>example = JUndefined,
      examples = Some [(''one'', \<lparr>evalue = JArr [JStr ''Rex'']\<rparr>),
                       (''none'', \<lparr>evalue = JArr []\<rparr>)],
      schema = JObj [(''type'', JStr ''array'')]\<rparr>"

definition petsContent :: "(string \<times> media_type_object) list" where
  "petsContent = [(''text/plain'', plainPets), (''application/json'', jsonPets)]"

definition listPets :: operation where
  "listPets =
     \<lparr>operationId = Some ''listPets'', path = ''/pets'', httpMethod = ''get'',
      responses = Some [(''200'', \<lparr>content = Some petsContent\<rparr>)]\<rparr>"

definition countPets :: operation where
  "countPets =
     \<lparr>operationId = Some ''countPets'', path = ''/pets/count'', httpMethod = ''get'',
      responses = Some
        [(''200'', \<lparr>content = Some
            [(''application/json'',
              \<lparr>example = JUndefined, examples = Some [],
               schema = JObj [(''type'', JStr ''integer'')]\<rparr>)]\<rparr>)]\<rparr>"

text \<open>An operation without responses, one with an empty content map, one with a bare entry.\<close>

definition deletePet :: operation where
  "deletePet =
     \<lparr>operationId = Some ''deletePet'', path = ''/pets/{id}'', httpMethod = ''delete'',
      responses = None\<rparr>"

definition headPets :: operation where
  "headPets =
     \<lparr>operationId = Some ''headPets'', path = ''/pets'', httpMethod = ''head'',
      responses = Some [(''200'', \<lparr>content = Some []\<rparr>)]\<rparr>"

definition barePets :: media_type_object where
  "barePets = \<lparr>example = JUndefined, examples = None, schema = JUndefined\<rparr>"

definition pingPets :: operation where
  "pingPets =
     \<lparr>operationId = Some ''pingPets'', path = ''/pets/ping'', httpMethod = ''get'',
      responses = Some [(''200'', \<lparr>content = Some [(''application/json'', barePets)]\<rparr>)]\<rparr>"

text \<open>Named examples under numeric names: \<^verbatim>\<open>Object.keys\<close> gives 2, 10, latest.\<close>

definition numberedPets :: media_type_object where
  "numberedPets =
     \<lparr>example = JUndefined,
      examples = Some [(''latest'', \<lparr>evalue = JStr ''Rex''\<rparr>),
                       (''10'', \<lparr>evalue = JStr ''Tom''\<rparr>),
                       (''2'', \<lparr>evalue = JStr ''Bob''\<rparr>)],
      schema = JUndefined\<rparr>"

definition rankPets :: operation where
  "rankPets =
     \<lparr>operationId = Some ''rankPets'', path = ''/pets/rank'', httpMethod = ''get'',
      responses = Some [(''200'', \<lparr>content = Some [(''application/json'', numberedPets)]\<rparr>)]\<rparr>"

text \<open>
  An operation whose only response is not the default one, and one whose entry has an
  inline example beside an empty examples object.
\<close>

definition purgePets :: operation where
  "purgePets =
     \<lparr>operationId = Some ''purgePets'', path = ''/pets'', httpMethod = ''delete'',
      responses = Some [(''204'', \<lparr>content = None\<rparr>)]\<rparr>"

definition tallyEntry :: media_type_object where
  "tallyEntry = \<lparr>example = JNum 3, examples = Some [], schema = JUndefined\<rparr>"

definition tallyPets :: operation where
  "tallyPets =
     \<lparr>operationId = Some ''tallyPets'', path = ''/pets/tally'', httpMethod = ''get'',
      responses = Some [(''200'', \<lparr>content = Some [(''application/json'', tallyEntry)]\<rparr>)]\<rparr>"

definition petRequest :: request where
  "petRequest =
     \<lparr>req_method = ''get'', req_path = ''/pets/abc'', req_headers = [],
      req_query = JUndefined, req_body = JUndefined\<rparr>"

definition strayRequest :: request where
  "strayRequest =
     \<lparr>req_method = ''get'', req_path = ''/owners'', req_headers = [],
      req_query = JUndefined, req_body = JUndefined\<rparr>"

definition petRouter :: router where
  "petRouter =
     \<lparr>parseRequest = (\<lambda>rq p.
        \<lparr>pr_method = req_method rq, pr_path = req_path rq, pr_headers = req_headers rq,
         pr_query = req_query rq,
         pr_params = (if p = Some ''/pets/{id}'' then [(''id'', ''abc'')] else []),
         pr_cookies = [], pr_requestBody = req_body rq\<rparr>),
      matchOperation = (\<lambda>rq. if req_path rq = ''/pets/abc'' then Some getPetById else None),
      getOperation = (\<lambda>k. if k = ''getPetById'' then Some getPetById
                          else if k = ''listPets'' then Some listPets
                          else if k = ''countPets'' then Some countPets
                          else if k = ''deletePet'' then Some deletePet
                          else if k = ''headPets'' then Some headPets
                          else if k = ''pingPets'' then Some pingPets
                          else if k = ''rankPets'' then Some rankPets
                          else if k = ''purgePets'' then Some purgePets
                          else if k = ''tallyPets'' then Some tallyPets else None)\<rparr>"

definition rejecting :: validator where
  "rejecting =
     \<lparr>validateRequest = (\<lambda>rq opn.
        \<lparr>valid = False, errors = Some [JStr ''id should be integer'']\<rparr>)\<rparr>"

definition petEnv :: env where
  "petEnv =
     \<lparr>parse = Inr, validateOpenAPI = (\<lambda>d. (True, [])), dereference = Inr,
      newRouter = (\<lambda>d root. petRouter), newValidator = (\<lambda>d r. rejecting),
      findDefaultStatusCodeMatch = (\<lambda>rs. (200, map_of rs ''200'')),
      mock = (\<lambda>s. JObj [(''mocked'', s)])\<rparr>"

text \<open>The backend as the constructor leaves it, with the default options.\<close>

definition newBackend :: "(string \<times> hval) list \<Rightarrow> backend" where
  "newBackend hs =
     \<lparr>document = JUndefined, inputDocument = JStr ''petstore.yml'',
      definition_doc = JUndefined, apiRoot = ''/'', initalized = False, strict = False,
      validate = VBool True, withContext = True, handlers = hs,
      router = None, validator = None\<rparr>"

text \<open>The same backend once \<^verbatim>\<open>init\<close> has run in \<open>petEnv\<close>.\<close>

definition petBackend :: "(string \<times> hval) list \<Rightarrow> backend" where
  "petBackend hs =
     \<lparr>document = JStr ''petstore.yml'', inputDocument = JStr ''petstore.yml'',
      definition_doc = JStr ''petstore.yml'', apiRoot = ''/'', initalized = True,
      strict = False, validate = VBool True, withContext = True, handlers = hs,
      router = Some petRouter, validator = Some rejecting\<rparr>"

text \<open>A handler that answers with a fixed string.\<close>

definition reply :: "string \<Rightarrow> hval" where
  "reply s = Fn (\<lambda>c args. Inr (JStr s))"

text \<open>A post response handler that answers with the response it finds in its context.\<close>

definition echoResponse :: hval where
  "echoResponse =
     Fn (\<lambda>c args. Inr (case c of
                          None \<Rightarrow> JUndefined
                        | Some x \<Rightarrow> (case response x of None \<Rightarrow> JUndefined | Some y \<Rightarrow> y)))"

text \<open>Handler tables, and the context of \<open>petRequest\<close> once validated.\<close>

definition enforcing :: "(string \<times> hval) list" where
  "enforcing = [(''getPetById'', reply ''pet''), (''validationFail'', reply ''invalid'')]"

definition advisory :: "(string \<times> hval) list" where
  "advisory = [(''getPetById'', reply ''pet'')]"

definition hooked :: "(string \<times> hval) list" where
  "hooked = [(''notFound'', reply ''no such route''), (''postResponseHandler'', echoResponse)]"

definition wrapped :: "(string \<times> hval) list" where
  "wrapped = [(''getPetById'', reply ''pet''), (''postResponseHandler'', echoResponse)]"

definition fallback501 :: "(string \<times> hval) list" where
  "fallback501 = [(''501'', reply ''todo''), (''notImplemented'', reply ''later'')]"

definition fallbackNamed :: "(string \<times> hval) list" where
  "fallbackNamed = [(''notImplemented'', reply ''later'')]"

definition rejectedContext :: "context" where
  "rejectedContext =
     (matchedContext petRouter petRequest getPetById)
       \<lparr>validation := Some (validateRequest rejecting petRequest getPetById)\<rparr>"

text \<open>
  The initialised backend with the \<open>enforcing\<close> table and validation switched off,
  and the same with a predicate that asks for validation only when the caller passes
  extra arguments.
\<close>

definition unvalidating :: backend where
  "unvalidating = (petBackend enforcing)\<lparr>validate := VBool False\<rparr>"

definition switchedOff :: "(string \<times> hval) list \<Rightarrow> backend" where
  "switchedOff hs = (petBackend hs)\<lparr>validate := VBool False\<rparr>"

definition selective :: backend where
  "selective = (petBackend enforcing)\<lparr>validate := VPred (\<lambda>c args. args \<noteq> [])\<rparr>"

definition noOpts :: mock_opts where
  "noOpts = \<lparr>opt_code = None, opt_mediaType = None, opt_example = None\<rparr>"

definition asXml :: mock_opts where
  "asXml = noOpts\<lparr>opt_mediaType := Some ''text/xml''\<rparr>"

definition asText :: mock_opts where
  "asText = noOpts\<lparr>opt_mediaType := Some ''text/plain''\<rparr>"

definition askOne :: mock_opts where
  "askOne = noOpts\<lparr>opt_example := Some ''one''\<rparr>"

definition askMissing :: mock_opts where
  "askMissing = noOpts\<lparr>opt_example := Some ''missing''\<rparr>"

definition askNone :: mock_opts where
  "askNone = noOpts\<lparr>opt_example := Some ''none''\<rparr>"

definition code404 :: mock_opts where
  "code404 = noOpts\<lparr>opt_code := Some 404\<rparr>"

definition code500 :: mock_opts where
  "code500 = noOpts\<lparr>opt_code := Some 500\<rparr>"

definition asConstructor :: mock_opts where
  "asConstructor = noOpts\<lparr>opt_mediaType := Some ''constructor''\<rparr>"

definition code0 :: mock_opts where
  "code0 = noOpts\<lparr>opt_code := Some 0\<rparr>"

text \<open>Backends in strict mode, before and after initialisation.\<close>

definition strictNew :: backend where
  "strictNew = (newBackend [])\<lparr>strict := True\<rparr>"

definition strictPets :: backend where
  "strictPets = (petBackend [])\<lparr>strict := True\<rparr>"

section \<open>Objects: keys and inherited members\<close>

lemmas object_defs = objectKeys_def is_index_def is_digit_def index_value_def digit_value_def

lemmas member_defs = inherited_def objectPrototype_def getProperty_def

lemma objectKeys_order:
  "objectKeys [(''latest'', x), (''10'', y), (''2'', z), (''01'', u), (''-1'', v)]
   = [''2'', ''10'', ''latest'', ''01'', ''-1'']"
  by (simp add: object_defs)

lemma objectKeys_set: "set (objectKeys obj) = fst ` set obj"
  by (auto simp: objectKeys_def)

lemma objectKeys_empty: "(objectKeys obj = []) = (obj = [])"
  using objectKeys_set [of obj] by (cases obj) force+

lemma objectKeys_plain: "filter is_index (map fst obj) = [] \<Longrightarrow> objectKeys obj = map fst obj"
  by (simp add: objectKeys_def filter_empty_conv)

lemma objectKeys_first_own:
  assumes "objectKeys obj = k # ks"
  shows "\<exists>v. map_of obj k = Some v"
proof -
  have "k \<in> fst ` set obj"
    using objectKeys_set [of obj] assms by auto
  then show ?thesis
    by (cases "map_of obj k") (auto simp: map_of_eq_None_iff)
qed

lemma reserved_not_inherited:
  "\<not> inherited ''404''" "\<not> inherited ''notFound''" "\<not> inherited ''501''"
  "\<not> inherited ''notImplemented''" "\<not> inherited ''validationFail''"
  "\<not> inherited ''postResponseHandler''"
  by (simp_all add: inherited_def objectPrototype_def)

lemma inherited_members:
  "inherited k = (k \<in> {''constructor'', ''__defineGetter__'', ''__defineSetter__'',
      ''hasOwnProperty'', ''__lookupGetter__'', ''__lookupSetter__'', ''isPrototypeOf'',
      ''propertyIsEnumerable'', ''toString'', ''valueOf'', ''__proto__'', ''toLocaleString''})"
  by (simp add: inherited_def objectPrototype_def)

lemma handler_at_own: "map_of (handlers b) k = Some h \<Longrightarrow> handler_at b k = h"
  by (simp add: handler_at_def)

lemma handler_at_plain:
  "\<not> inherited k \<Longrightarrow> truthy_h (handler_at b k) = registered b k"
  by (simp add: handler_at_def inherited_def registered_def split: option.split)

lemma handler_at_reserved:
  "truthy_h (handler_at b ''404'') = registered b ''404''"
  "truthy_h (handler_at b ''notFound'') = registered b ''notFound''"
  "truthy_h (handler_at b ''501'') = registered b ''501''"
  "truthy_h (handler_at b ''notImplemented'') = registered b ''notImplemented''"
  "truthy_h (handler_at b ''validationFail'') = registered b ''validationFail''"
  "truthy_h (handler_at b ''postResponseHandler'') = registered b ''postResponseHandler''"
  by (simp_all add: handler_at_plain reserved_not_inherited)

section \<open>Registration and initialisation: what they leave unchanged\<close>

lemma handler_at_store: "handler_at (st (store b k h l)) k = h"
  by (simp add: store_def handler_at_def update_conv')

lemma registerHandler_log: "\<forall>e \<in> set (log (registerHandler b k h)). is_warning e"
  by (simp add: registerHandler_def store_def split: option.split)

lemma registerHandler_frame:
  "initalized (st (registerHandler b k h)) = initalized b
   \<and> router (st (registerHandler b k h)) = router b
   \<and> validator (st (registerHandler b k h)) = validator b
   \<and> strict (st (registerHandler b k h)) = strict b
   \<and> validate (st (registerHandler b k h)) = validate b
   \<and> withContext (st (registerHandler b k h)) = withContext b"
  by (simp add: registerHandler_def store_def split: option.split)

lemma registerHandler_same:
  "map_of (handlers b) k = Some h \<Longrightarrow> handlers (st (registerHandler b k h)) = handlers b"
  by (simp add: registerHandler_def store_def update_triv split: option.split)

lemma registerEach_log: "\<forall>e \<in> set (log (registerEach b hs ks)). is_warning e"
proof (induction ks arbitrary: b)
  case Nil
  show ?case by simp
next
  case (Cons k ks)
  show ?case
    using Cons.IH registerHandler_log [of b k]
    by (auto simp: Let_def split: option.split sum.split)
qed

lemma registerEach_frame:
  "initalized (st (registerEach b hs ks)) = initalized b
   \<and> router (st (registerEach b hs ks)) = router b
   \<and> validator (st (registerEach b hs ks)) = validator b
   \<and> strict (st (registerEach b hs ks)) = strict b
   \<and> validate (st (registerEach b hs ks)) = validate b
   \<and> withContext (st (registerEach b hs ks)) = withContext b"
proof (induction ks arbitrary: b)
  case Nil
  show ?case by simp
next
  case (Cons k ks)
  show ?case
    using Cons.IH registerHandler_frame [of b k]
    by (auto simp: Let_def split: option.split sum.split)
qed

lemma registerEach_same:
  "handlers b = hs \<Longrightarrow> handlers (st (registerEach b hs ks)) = hs"
proof (induction ks arbitrary: b)
  case Nil
  then show ?case by simp
next
  case (Cons k ks)
  then show ?case
    using registerHandler_same [of b k]
    by (auto simp: Let_def split: option.split sum.split)
qed

lemma finishInit_log:
  "\<forall>e \<in> set l. is_warning e \<Longrightarrow> \<forall>e \<in> set (log (finishInit env b l)). is_warning e"
  using registerEach_log
  by (auto simp: finishInit_def Let_def)

lemma init_log: "\<forall>e \<in> set (log (init env b)). is_warning e"
  using finishInit_log [of "[]" env] finishInit_log [of "[WarnError e]" env for e]
  by (auto simp: init_def split: prod.split option.split)

lemma finishInit_state:
  "initalized (st (finishInit env b l))
   \<and> router (st (finishInit env b l)) \<noteq> None
   \<and> validator (st (finishInit env b l)) \<noteq> None
   \<and> handlers (st (finishInit env b l)) = handlers b
   \<and> strict (st (finishInit env b l)) = strict b
   \<and> validate (st (finishInit env b l)) = validate b
   \<and> withContext (st (finishInit env b l)) = withContext b"
  by (simp add: finishInit_def Let_def registerEach_frame registerEach_same)

lemma loadDocument_frame:
  "handlers (fst (loadDocument env b)) = handlers b
   \<and> strict (fst (loadDocument env b)) = strict b
   \<and> validate (fst (loadDocument env b)) = validate b
   \<and> withContext (fst (loadDocument env b)) = withContext b"
  by (simp add: loadDocument_def Let_def split: sum.split)

lemma init_state:
  assumes "res (init env b) = Inr u"
  shows "initalized (st (init env b)) \<and> router (st (init env b)) \<noteq> None
         \<and> validator (st (init env b)) \<noteq> None
         \<and> handlers (st (init env b)) = handlers b
         \<and> strict (st (init env b)) = strict b
         \<and> validate (st (init env b)) = validate b
         \<and> withContext (st (init env b)) = withContext b"
proof (cases "loadDocument env b")
  case (Pair b1 eo)
  have fr: "handlers b1 = handlers b \<and> strict b1 = strict b \<and> validate b1 = validate b
            \<and> withContext b1 = withContext b"
    using loadDocument_frame [of env b] Pair by simp
  show ?thesis
  proof (cases eo)
    case None
    with Pair fr show ?thesis by (simp add: init_def finishInit_state)
  next
    case (Some e)
    with Pair fr assms show ?thesis
      by (cases "strict b") (simp_all add: init_def finishInit_state)
  qed
qed

lemma ensureInit_log: "\<forall>e \<in> set (log (ensureInit env b)). is_warning e"
  using init_log by (simp add: ensureInit_def)

lemma warnings_no_calls: "\<forall>e \<in> set l. is_warning e \<Longrightarrow> calls_at s l = []"
  unfolding calls_at_def
  by (induction l) (auto elim: is_warning.elims)

lemma ensureInit_quiet: "calls_at s (log (ensureInit env b)) = []"
  using ensureInit_log warnings_no_calls by blast

lemma ensureInit_initalized:
  "res (ensureInit env b) = Inr u \<Longrightarrow> initalized (st (ensureInit env b))"
  using init_state [of env b u] by (simp add: ensureInit_def split: if_splits)

lemma ensureInit_handlers:
  "res (ensureInit env b) = Inr u \<Longrightarrow> handlers (st (ensureInit env b)) = handlers b"
  using init_state [of env b u] by (simp add: ensureInit_def split: if_splits)

section \<open>The dispatch pipeline\<close>

lemma handleRequest_started:
  assumes "res (ensureInit env b) = Inr u" and "st (ensureInit env b) = b'" and "router b' = Some r"
  shows "handleRequest env b req args = postStage b' (log (ensureInit env b)) args (inner b' r req args)"
  using assms by (simp add: handleRequest_def Let_def)

lemma st_postStage: "st (postStage b l args i) = b"
  by (simp add: postStage_def split: prod.split sum.split)

lemma inner_unrouted:
  assumes "matchOperation r req = None \<or> (\<exists>opn. matchOperation r req = Some opn \<and> \<not> given (operationId opn))"
  shows "inner b r req args = (routedContext r req, notFoundStage b (routedContext r req) args)"
  using assms by (auto simp: inner_def Let_def routedContext_def split: prod.split option.split)

lemma inner_matched:
  assumes "matchOperation r req = Some opn" and "operationId opn = Some X" and "X \<noteq> []"
  shows "inner b r req args = validateStage b req opn X (matchedContext r req opn) args"
  using assms by (simp add: inner_def Let_def routedContext_def)

lemma calls_at_append: "calls_at s (l1 @ l2) = calls_at s l1 @ calls_at s l2"
  by (simp add: calls_at_def)

lemma calls_at_Cons_Validate: "calls_at s (Validate rq opn # l) = calls_at s l"
  by (simp add: calls_at_def)

lemma calls_at_single:
  "calls_at s [Call s' k c args] = (if s' = s then [Call s' k c args] else [])"
  by (simp add: calls_at_def)

lemma invoke_Fn:
  "handler_at b k = Fn f \<Longrightarrow>
   invoke b s k ctx args =
     ([Call s k (if withContext b then Some ctx else None) args],
      f (if withContext b then Some ctx else None) args)"
  by (simp add: invoke_def Let_def)

lemma invoke_calls:
  "invoke b s' k ctx args = (evs, out) \<Longrightarrow> calls_at s evs = (if s = s' then evs else [])"
  by (auto simp: invoke_def Let_def calls_at_def split: hval.splits)

lemma log_postStage_calls:
  "s \<noteq> PostResponseSite \<Longrightarrow>
   calls_at s (log (postStage b l args (ctx, evs, out))) = calls_at s l @ calls_at s evs"
  by (auto simp: postStage_def calls_at_append split: sum.split prod.split dest: invoke_calls [where s = s])

lemma res_postStage_plain:
  "\<not> truthy_h (handler_at b ''postResponseHandler'') \<Longrightarrow>
   res (postStage b l args (ctx, evs, out)) = out"
  by (simp add: postStage_def split: sum.split)

lemma res_postStage_raise: "res (postStage b l args (ctx, evs, Inl e)) = Inl e"
  by (simp add: postStage_def)

lemma res_postStage_hook:
  "handler_at b ''postResponseHandler'' = Fn p \<Longrightarrow>
   res (postStage b l args (ctx, evs, Inr resp))
     = p (if withContext b then Some (ctx\<lparr>response := Some resp\<rparr>) else None) args"
  by (simp add: postStage_def invoke_Fn)

lemma routeStage_Fn:
  "handler_at b X = Fn h \<Longrightarrow>
   routeStage b X ctx args =
     ([Call RouteSite X (if withContext b then Some ctx else None) args],
      h (if withContext b then Some ctx else None) args)"
  by (simp add: routeStage_def invoke_Fn)

lemma routeStage_fallback:
  assumes "\<not> truthy_h (handler_at b X)"
    and "k = (if truthy_h (handler_at b ''501'') then ''501'' else ''notImplemented'')"
    and "handler_at b k = Fn g"
  shows "routeStage b X ctx args =
     ([Call NotImplementedSite k (if withContext b then Some ctx else None) args],
      g (if withContext b then Some ctx else None) args)"
  using assms by (simp add: routeStage_def either_key_def Let_def invoke_Fn)

lemma routeStage_raise:
  assumes "\<not> truthy_h (handler_at b X)" and "\<not> truthy_h (handler_at b ''501'')"
    and "\<not> truthy_h (handler_at b ''notImplemented'')"
  shows "routeStage b X ctx args
         = ([], Inl (Error (''501-notImplemented: '' @ X @ '' no handler registered'')))"
  using assms by (simp add: routeStage_def either_key_def)

lemma routeStage_calls:
  "routeStage b X ctx args = (evs, out) \<Longrightarrow>
   calls_at NotFoundSite evs = [] \<and> calls_at ValidationFailSite evs = []
   \<and> calls_at PostResponseSite evs = []"
  by (auto simp: routeStage_def Let_def calls_at_def split: if_splits dest: invoke_calls)

lemma routeStage_unregistered:
  "\<not> truthy_h (handler_at b X) \<Longrightarrow> routeStage b X ctx args = (evs, out) \<Longrightarrow>
   calls_at RouteSite evs = []"
  by (auto simp: routeStage_def Let_def split: if_splits dest: invoke_calls [where s = RouteSite])
     (simp add: calls_at_def)

lemma notFoundStage_calls:
  "notFoundStage b ctx args = (evs, out) \<Longrightarrow>
   calls_at RouteSite evs = [] \<and> calls_at ValidationFailSite evs = []
   \<and> calls_at NotImplementedSite evs = [] \<and> calls_at PostResponseSite evs = []"
  by (auto simp: notFoundStage_def Let_def calls_at_def split: if_splits dest: invoke_calls)

lemma validateStage_calls:
  "validateStage b req opn X ctx args = (ctx', evs, out) \<Longrightarrow>
   calls_at NotFoundSite evs = [] \<and> calls_at PostResponseSite evs = []"
  by (auto simp: validateStage_def Let_def calls_at_Cons_Validate
      split: if_splits option.splits prod.splits
      dest: routeStage_calls invoke_calls [where s = NotFoundSite]
        invoke_calls [where s = PostResponseSite])
     (simp_all add: calls_at_def)

lemma inner_calls:
  "inner b r req args = (ctx, evs, out) \<Longrightarrow> calls_at PostResponseSite evs = []"
  by (auto simp: inner_def Let_def split: option.splits if_splits prod.splits
      dest: notFoundStage_calls validateStage_calls)

text \<open>
  C1, as the code has it. Once the initialisation at the head of \<^verbatim>\<open>handleRequest\<close>
  has gone through: a request that matches no operation, or an operation without an
  operationId, with nothing registered under \<^verbatim>\<open>404\<close> and \<^verbatim>\<open>notFound\<close>, raises the
  404 error; a request that matches operation \<open>X\<close>, with nothing registered under
  \<open>X\<close>, \<^verbatim>\<open>501\<close> and \<^verbatim>\<open>notImplemented\<close>, raises the 501 error, unless \<open>X\<close> is
  the name of a member the table inherits from \<^verbatim>\<open>Object.prototype\<close>, and unless the
  request is answered by the \<^verbatim>\<open>validationFail\<close> handler (the gate is on, the validator
  reports errors and that handler is registered). In both cases no handler is called.
  The backend is left as initialisation left it, initialised, and the next request is
  dispatched on it without a new initialisation.
\<close>

theorem missing_fallback_raises:
  assumes "res (ensureInit env b) = Inr ()" and "st (ensureInit env b) = b'"
    and "router b' = Some r" and "validator b' = Some v"
  shows "((matchOperation r req = None
            \<or> (\<exists>opn. matchOperation r req = Some opn \<and> \<not> given (operationId opn)))
          \<and> \<not> registered b' ''404'' \<and> \<not> registered b' ''notFound''
          \<longrightarrow> res (handleRequest env b req args)
                = Inl (Error ''404-notFound: no route matches request'')
              \<and> filter (\<lambda>e. \<not> is_warning e) (log (handleRequest env b req args)) = [])
       \<and> (\<forall>opn X. matchOperation r req = Some opn \<and> operationId opn = Some X \<and> X \<noteq> []
            \<and> \<not> registered b' X \<and> \<not> inherited X
            \<and> \<not> registered b' ''501'' \<and> \<not> registered b' ''notImplemented''
            \<and> \<not> (gate b' (matchedContext r req opn) args
                   \<and> errors (validateRequest v req opn) \<noteq> None
                   \<and> registered b' ''validationFail'')
          \<longrightarrow> res (handleRequest env b req args)
                = Inl (Error (''501-notImplemented: '' @ X @ '' no handler registered''))
              \<and> (\<forall>s. calls_at s (log (handleRequest env b req args)) = []))
       \<and> st (handleRequest env b req args) = b' \<and> initalized b'
       \<and> handleRequest env b' req2 args2 = postStage b' [] args2 (inner b' r req2 args2)"
proof -
  have run: "handleRequest env b req args
             = postStage b' (log (ensureInit env b)) args (inner b' r req args)"
    using assms(1-3) by (rule handleRequest_started)
  have ini: "initalized b'"
    using ensureInit_initalized [of env b] assms by simp
  have quiet: "filter (\<lambda>e. \<not> is_warning e) (log (ensureInit env b)) = []"
    using ensureInit_log [of env b] by (simp add: filter_empty_conv)
  have nf: "res (handleRequest env b req args) = Inl (Error ''404-notFound: no route matches request'')
            \<and> filter (\<lambda>e. \<not> is_warning e) (log (handleRequest env b req args)) = []"
    if "matchOperation r req = None
        \<or> (\<exists>opn. matchOperation r req = Some opn \<and> \<not> given (operationId opn))"
      and "\<not> registered b' ''404''" and "\<not> registered b' ''notFound''"
    using that quiet
    by (simp add: run inner_unrouted notFoundStage_def either_key_def postStage_def
        handler_at_reserved)
  have ni: "res (handleRequest env b req args)
            = Inl (Error (''501-notImplemented: '' @ X @ '' no handler registered''))
            \<and> (\<forall>s. calls_at s (log (handleRequest env b req args)) = [])"
    if m: "matchOperation r req = Some opn" "operationId opn = Some X" "X \<noteq> []"
      and x: "\<not> registered b' X" "\<not> inherited X"
      and f: "\<not> registered b' ''501''" "\<not> registered b' ''notImplemented''"
      and g: "\<not> (gate b' (matchedContext r req opn) args
               \<and> errors (validateRequest v req opn) \<noteq> None
               \<and> registered b' ''validationFail'')"
    for opn X
  proof -
    have hx: "\<not> truthy_h (handler_at b' X)"
      using x by (simp add: handler_at_plain)
    have rs: "routeStage b' X ctx args
              = ([], Inl (Error (''501-notImplemented: '' @ X @ '' no handler registered'')))" for ctx
      using hx f by (simp add: routeStage_raise handler_at_reserved)
    have "\<exists>ctx pre. inner b' r req args
                = (ctx, pre, Inl (Error (''501-notImplemented: '' @ X @ '' no handler registered'')))
              \<and> (\<forall>s. calls_at s pre = [])"
      using g assms(4)
      by (cases "gate b' (matchedContext r req opn) args";
          cases "errors (validateRequest v req opn)";
          cases "registered b' ''validationFail''")
         (simp_all add: inner_matched [OF m] validateStage_def Let_def rs handler_at_reserved
            calls_at_def)
    then obtain ctx pre where i: "inner b' r req args
        = (ctx, pre, Inl (Error (''501-notImplemented: '' @ X @ '' no handler registered'')))"
      and pre: "\<And>s. calls_at s pre = []"
      by blast
    show ?thesis
      by (simp add: run i postStage_def calls_at_append ensureInit_quiet pre)
  qed
  have again: "handleRequest env b' req2 args2 = postStage b' [] args2 (inner b' r req2 args2)"
    using ini assms(3) by (simp add: handleRequest_def ensureInit_def Let_def)
  show ?thesis
    using nf ni again ini by (auto simp: run st_postStage)
qed

text \<open>
  C2. On a request that matches operation \<open>X\<close> and on which the validate gate is on:
  when \<^verbatim>\<open>validateRequest\<close> reports errors and a \<^verbatim>\<open>validationFail\<close> handler is
  registered, that handler is called once, with the validated context, and the handler
  of \<open>X\<close> is not called; when no \<^verbatim>\<open>validationFail\<close> handler is registered, the
  request goes on to the handler lookup for \<open>X\<close> with the validated context, whatever
  the validator reported, so exactly as a valid request does, and the handler registered
  for \<open>X\<close> is called once. In both cases \<^verbatim>\<open>handleRequest\<close> gives what the handler
  called gives (or what the post response handler makes of it): it raises an error only
  when that handler or the post response handler does.
\<close>

theorem validation_is_advisory:
  assumes "res (ensureInit env b) = Inr ()" and "st (ensureInit env b) = b'"
    and "router b' = Some r" and "validator b' = Some v"
    and "matchOperation r req = Some opn" and "operationId opn = Some X" and "X \<noteq> []"
    and "gate b' (matchedContext r req opn) args"
    and "ctx = (matchedContext r req opn)\<lparr>validation := Some (validateRequest v req opn)\<rparr>"
    and "c = (if withContext b' then Some ctx else None)"
  shows "(errors (validateRequest v req opn) \<noteq> None \<longrightarrow>
            (\<forall>f. handler_at b' ''validationFail'' = Fn f \<longrightarrow>
               calls_at ValidationFailSite (log (handleRequest env b req args))
                 = [Call ValidationFailSite ''validationFail'' c args]
               \<and> calls_at RouteSite (log (handleRequest env b req args)) = []
               \<and> inner b' r req args
                   = (ctx, [Validate req opn, Call ValidationFailSite ''validationFail'' c args],
                      f c args)
               \<and> (\<not> truthy_h (handler_at b' ''postResponseHandler'') \<longrightarrow>
                    res (handleRequest env b req args) = f c args)
               \<and> (\<forall>e. f c args = Inl e \<longrightarrow> res (handleRequest env b req args) = Inl e)
               \<and> (\<forall>p resp. handler_at b' ''postResponseHandler'' = Fn p \<and> f c args = Inr resp \<longrightarrow>
                    res (handleRequest env b req args)
                      = p (if withContext b' then Some (ctx\<lparr>response := Some resp\<rparr>) else None)
                          args)))
       \<and> (\<not> truthy_h (handler_at b' ''validationFail'') \<longrightarrow>
            calls_at ValidationFailSite (log (handleRequest env b req args)) = []
            \<and> inner b' r req args
                = (ctx, Validate req opn # fst (routeStage b' X ctx args),
                   snd (routeStage b' X ctx args))
            \<and> (\<forall>h. handler_at b' X = Fn h \<longrightarrow>
                  calls_at RouteSite (log (handleRequest env b req args))
                    = [Call RouteSite X c args]
                  \<and> inner b' r req args
                      = (ctx, [Validate req opn, Call RouteSite X c args], h c args)
                  \<and> (\<not> truthy_h (handler_at b' ''postResponseHandler'') \<longrightarrow>
                       res (handleRequest env b req args) = h c args)
                  \<and> (\<forall>e. h c args = Inl e \<longrightarrow> res (handleRequest env b req args) = Inl e)
                  \<and> (\<forall>p resp. handler_at b' ''postResponseHandler'' = Fn p \<and> h c args = Inr resp \<longrightarrow>
                       res (handleRequest env b req args)
                         = p (if withContext b' then Some (ctx\<lparr>response := Some resp\<rparr>) else None)
                             args)))"
proof -
  have run: "handleRequest env b req args
             = postStage b' (log (ensureInit env b)) args (inner b' r req args)"
    using assms(1-3) by (rule handleRequest_started)
  have inn: "inner b' r req args = validateStage b' req opn X (matchedContext r req opn) args"
    using assms(5-7) by (rule inner_matched)
  have fail: "inner b' r req args
              = (ctx, [Validate req opn, Call ValidationFailSite ''validationFail'' c args], f c args)"
    if "errors (validateRequest v req opn) \<noteq> None" and "handler_at b' ''validationFail'' = Fn f" for f
    using that assms(4,8,9,10) by (simp add: inn validateStage_def Let_def invoke_Fn)
  have pass: "inner b' r req args
              = (ctx, Validate req opn # fst (routeStage b' X ctx args), snd (routeStage b' X ctx args))"
    if "\<not> truthy_h (handler_at b' ''validationFail'')"
    using that assms(4,8,9) by (simp add: inn validateStage_def Let_def split: prod.split)
  have pass_h: "inner b' r req args = (ctx, [Validate req opn, Call RouteSite X c args], h c args)"
    if "\<not> truthy_h (handler_at b' ''validationFail'')" and "handler_at b' X = Fn h" for h
    using that assms(10) by (simp add: pass routeStage_Fn)
  have novf: "calls_at ValidationFailSite (fst (routeStage b' X ctx args)) = []"
    using routeStage_calls [of b' X ctx args] by (cases "routeStage b' X ctx args") simp
  have outcome:
    "(\<not> truthy_h (handler_at b' ''postResponseHandler'') \<longrightarrow>
         res (handleRequest env b req args) = out)
     \<and> (\<forall>e. out = Inl e \<longrightarrow> res (handleRequest env b req args) = Inl e)
     \<and> (\<forall>p resp. handler_at b' ''postResponseHandler'' = Fn p \<and> out = Inr resp \<longrightarrow>
           res (handleRequest env b req args)
             = p (if withContext b' then Some (ctx\<lparr>response := Some resp\<rparr>) else None) args)"
    if "inner b' r req args = (ctx, evs, out)" for evs out
    by (simp add: run that res_postStage_plain res_postStage_raise res_postStage_hook)
  show ?thesis
  proof (intro conjI impI allI)
    fix f assume "errors (validateRequest v req opn) \<noteq> None" "handler_at b' ''validationFail'' = Fn f"
    note i = fail [OF this]
    show "calls_at ValidationFailSite (log (handleRequest env b req args))
          = [Call ValidationFailSite ''validationFail'' c args]"
      by (simp add: run i log_postStage_calls ensureInit_quiet) (simp add: calls_at_def)
    show "calls_at RouteSite (log (handleRequest env b req args)) = []"
      by (simp add: run i log_postStage_calls ensureInit_quiet) (simp add: calls_at_def)
    show "inner b' r req args
          = (ctx, [Validate req opn, Call ValidationFailSite ''validationFail'' c args], f c args)"
      by (rule i)
    {
      assume "\<not> truthy_h (handler_at b' ''postResponseHandler'')"
      then show "res (handleRequest env b req args) = f c args"
        using outcome [OF i] by blast
    }
    {
      fix e assume "f c args = Inl e"
      then show "res (handleRequest env b req args) = Inl e"
        using outcome [OF i] by blast
    }
    {
      fix p resp assume "handler_at b' ''postResponseHandler'' = Fn p \<and> f c args = Inr resp"
      then show "res (handleRequest env b req args)
                 = p (if withContext b' then Some (ctx\<lparr>response := Some resp\<rparr>) else None) args"
        using outcome [OF i] by blast
    }
  next
    assume n: "\<not> truthy_h (handler_at b' ''validationFail'')"
    show "calls_at ValidationFailSite (log (handleRequest env b req args)) = []"
      by (simp add: run pass [OF n] log_postStage_calls ensureInit_quiet calls_at_Cons_Validate novf)
    show "inner b' r req args
          = (ctx, Validate req opn # fst (routeStage b' X ctx args), snd (routeStage b' X ctx args))"
      by (rule pass [OF n])
    fix h assume h: "handler_at b' X = Fn h"
    note i = pass_h [OF n h]
    show "calls_at RouteSite (log (handleRequest env b req args)) = [Call RouteSite X c args]"
      by (simp add: run i log_postStage_calls ensureInit_quiet) (simp add: calls_at_def)
    show "inner b' r req args = (ctx, [Validate req opn, Call RouteSite X c args], h c args)"
      by (rule i)
    {
      assume "\<not> truthy_h (handler_at b' ''postResponseHandler'')"
      then show "res (handleRequest env b req args) = h c args"
        using outcome [OF i] by blast
    }
    {
      fix e assume "h c args = Inl e"
      then show "res (handleRequest env b req args) = Inl e"
        using outcome [OF i] by blast
    }
    {
      fix p resp assume "handler_at b' ''postResponseHandler'' = Fn p \<and> h c args = Inr resp"
      then show "res (handleRequest env b req args)
                 = p (if withContext b' then Some (ctx\<lparr>response := Some resp\<rparr>) else None) args"
        using outcome [OF i] by blast
    }
  qed
qed

text \<open>
  C3, as the code has it. With a handler registered for \<open>X\<close> and a request that matches
  \<open>X\<close>, that handler is called exactly once and no call is made at the not-found, the
  not-implemented or the validation-fail place, provided the request is not answered by
  the \<^verbatim>\<open>validationFail\<close> handler (the gate is on, the validator reports errors and
  that handler is registered).
\<close>

theorem registered_handler_dispatch:
  assumes "res (ensureInit env b) = Inr ()" and "st (ensureInit env b) = b'"
    and "router b' = Some r" and "validator b' = Some v"
    and "matchOperation r req = Some opn" and "operationId opn = Some X" and "X \<noteq> []"
    and "handler_at b' X = Fn h"
    and "\<not> (gate b' (matchedContext r req opn) args
            \<and> errors (validateRequest v req opn) \<noteq> None
            \<and> truthy_h (handler_at b' ''validationFail''))"
    and "ctx = (if gate b' (matchedContext r req opn) args
                then (matchedContext r req opn)\<lparr>validation := Some (validateRequest v req opn)\<rparr>
                else matchedContext r req opn)"
    and "c = (if withContext b' then Some ctx else None)"
  shows "calls_at RouteSite (log (handleRequest env b req args)) = [Call RouteSite X c args]
       \<and> calls_at NotFoundSite (log (handleRequest env b req args)) = []
       \<and> calls_at NotImplementedSite (log (handleRequest env b req args)) = []
       \<and> calls_at ValidationFailSite (log (handleRequest env b req args)) = []"
proof -
  have run: "handleRequest env b req args
             = postStage b' (log (ensureInit env b)) args (inner b' r req args)"
    using assms(1-3) by (rule handleRequest_started)
  have quiet: "calls_at s (log (ensureInit env b)) = []" for s
    by (rule ensureInit_quiet)
  have inn: "inner b' r req args = validateStage b' req opn X (matchedContext r req opn) args"
    using assms(5-7) by (rule inner_matched)
  have "\<exists>pre. inner b' r req args = (ctx, pre @ [Call RouteSite X c args], h c args)
              \<and> (\<forall>s. calls_at s pre = [])"
  proof (cases "gate b' (matchedContext r req opn) args")
    case True
    with assms(4,8-11) have "inner b' r req args
        = (ctx, [Validate req opn] @ [Call RouteSite X c args], h c args)"
      by (cases "errors (validateRequest v req opn)";
          cases "truthy_h (handler_at b' ''validationFail'')")
         (simp_all add: inn validateStage_def Let_def routeStage_Fn)
    moreover have "\<forall>s. calls_at s [Validate req opn] = []"
      by (simp add: calls_at_def)
    ultimately show ?thesis by blast
  next
    case False
    with assms(8,10,11) have "inner b' r req args = (ctx, [] @ [Call RouteSite X c args], h c args)"
      by (simp add: inn validateStage_def routeStage_Fn)
    moreover have "\<forall>s. calls_at s [] = []"
      by (simp add: calls_at_def)
    ultimately show ?thesis by blast
  qed
  then obtain pre where i: "inner b' r req args = (ctx, pre @ [Call RouteSite X c args], h c args)"
    and pre: "\<And>s. calls_at s pre = []"
    by blast
  have one: "calls_at s [Call RouteSite X c args] = (if s = RouteSite then [Call RouteSite X c args] else [])" for s
    by (simp add: calls_at_def)
  show ?thesis
    by (simp add: run i log_postStage_calls quiet calls_at_append pre one)
qed

text \<open>
  C9. With a handler registered under \<^verbatim>\<open>postResponseHandler\<close>, whenever the inner
  function returns a response, on whichever path, the hook is called exactly once, last,
  with the context whose \<^verbatim>\<open>response\<close> is that response, and \<^verbatim>\<open>handleRequest\<close>
  gives back what the hook returns.
\<close>

theorem post_response_hook:
  assumes "res (ensureInit env b) = Inr ()" and "st (ensureInit env b) = b'"
    and "router b' = Some r"
    and "handler_at b' ''postResponseHandler'' = Fn p"
    and "inner b' r req args = (ctx, evs, Inr resp)"
    and "c = (if withContext b' then Some (ctx\<lparr>response := Some resp\<rparr>) else None)"
  shows "calls_at PostResponseSite (log (handleRequest env b req args))
           = [Call PostResponseSite ''postResponseHandler'' c args]
       \<and> log (handleRequest env b req args)
           = log (ensureInit env b) @ evs @ [Call PostResponseSite ''postResponseHandler'' c args]
       \<and> res (handleRequest env b req args) = p c args"
proof -
  have run: "handleRequest env b req args
             = postStage b' (log (ensureInit env b)) args (ctx, evs, Inr resp)"
    using assms(1-3,5) handleRequest_started [of env b "()" b' r req args] by simp
  have quiet: "calls_at PostResponseSite (log (ensureInit env b)) = []"
    by (rule ensureInit_quiet)
  have mid: "calls_at PostResponseSite evs = []"
    using assms(5) by (rule inner_calls)
  have lg: "log (handleRequest env b req args)
            = log (ensureInit env b) @ evs @ [Call PostResponseSite ''postResponseHandler'' c args]"
    and rs: "res (handleRequest env b req args) = p c args"
    using assms(4,6) by (simp_all add: run postStage_def invoke_Fn)
  have "calls_at PostResponseSite (log (handleRequest env b req args))
        = [Call PostResponseSite ''postResponseHandler'' c args]"
    by (simp add: lg calls_at_append quiet mid) (simp add: calls_at_def)
  with lg rs show ?thesis by simp
qed

lemma invoke_unvalidated:
  "validation ctx = None \<Longrightarrow> invoke b s k ctx args = (evs, out) \<Longrightarrow>
   \<forall>e \<in> set evs. seen_validation e = None \<and> \<not> is_validate e"
  by (auto simp: invoke_def Let_def split: hval.splits)

lemma routeStage_unvalidated:
  "validation ctx = None \<Longrightarrow> routeStage b X ctx args = (evs, out) \<Longrightarrow>
   \<forall>e \<in> set evs. seen_validation e = None \<and> \<not> is_validate e"
  by (auto simp: routeStage_def Let_def split: if_splits dest: invoke_unvalidated)

lemma warning_unvalidated: "is_warning e \<Longrightarrow> seen_validation e = None \<and> \<not> is_validate e"
  by (cases e) simp_all

lemma postStage_unvalidated:
  assumes "validation ctx = None"
    and "\<forall>e \<in> set l. seen_validation e = None \<and> \<not> is_validate e"
    and "\<forall>e \<in> set evs. seen_validation e = None \<and> \<not> is_validate e"
  shows "\<forall>e \<in> set (log (postStage b l args (ctx, evs, out))). seen_validation e = None \<and> \<not> is_validate e"
proof (cases out)
  case (Inl e)
  with assms show ?thesis by (auto simp: postStage_def)
next
  case (Inr resp)
  have "validation (ctx\<lparr>response := Some resp\<rparr>) = None"
    using assms(1) by simp
  from invoke_unvalidated [OF this] assms(2,3) Inr show ?thesis
    by (cases "invoke b PostResponseSite ''postResponseHandler'' (ctx\<lparr>response := Some resp\<rparr>) args")
       (auto simp: postStage_def)
qed

text \<open>
  C10, as the code has it. On a request that matches operation \<open>X\<close> and on which the
  validate gate is off, the request validator is not called, no handler is given a
  context with a validation result, and the operation in the context is the one the
  router matched. The handler is chosen as for a request that passes validation: the
  handler registered for \<open>X\<close>, called once; or, with nothing registered under \<open>X\<close>
  (and \<open>X\<close> not the name of an inherited member), the handler under \<^verbatim>\<open>501\<close>, else
  the one under \<^verbatim>\<open>notImplemented\<close>, called once at the not-implemented place, else
  the 501 error. The validation-fail handler is never called.
\<close>

theorem gate_off_skips_validation:
  assumes "res (ensureInit env b) = Inr ()" and "st (ensureInit env b) = b'"
    and "router b' = Some r"
    and "matchOperation r req = Some opn" and "operationId opn = Some X" and "X \<noteq> []"
    and "\<not> gate b' (matchedContext r req opn) args"
    and "c = (if withContext b' then Some (matchedContext r req opn) else None)"
  shows "filter is_validate (log (handleRequest env b req args)) = []
       \<and> filter (\<lambda>e. seen_validation e \<noteq> None) (log (handleRequest env b req args)) = []
       \<and> operation (matchedContext r req opn) = matchOperation r req
       \<and> calls_at ValidationFailSite (log (handleRequest env b req args)) = []
       \<and> (\<forall>h. map_of (handlers b') X = Some (Fn h) \<longrightarrow>
            calls_at RouteSite (log (handleRequest env b req args)) = [Call RouteSite X c args]
            \<and> calls_at NotImplementedSite (log (handleRequest env b req args)) = []
            \<and> (\<not> registered b' ''postResponseHandler'' \<longrightarrow>
                 res (handleRequest env b req args) = h c args))
       \<and> (\<not> registered b' X \<and> \<not> inherited X \<longrightarrow>
            calls_at RouteSite (log (handleRequest env b req args)) = []
            \<and> (\<forall>g. map_of (handlers b') ''501'' = Some (Fn g) \<longrightarrow>
                  calls_at NotImplementedSite (log (handleRequest env b req args))
                    = [Call NotImplementedSite ''501'' c args]
                  \<and> (\<not> registered b' ''postResponseHandler'' \<longrightarrow>
                       res (handleRequest env b req args) = g c args))
            \<and> (\<forall>g. \<not> registered b' ''501''
                    \<and> map_of (handlers b') ''notImplemented'' = Some (Fn g) \<longrightarrow>
                  calls_at NotImplementedSite (log (handleRequest env b req args))
                    = [Call NotImplementedSite ''notImplemented'' c args]
                  \<and> (\<not> registered b' ''postResponseHandler'' \<longrightarrow>
                       res (handleRequest env b req args) = g c args))
            \<and> (\<not> registered b' ''501'' \<and> \<not> registered b' ''notImplemented'' \<longrightarrow>
                  calls_at NotImplementedSite (log (handleRequest env b req args)) = []
                  \<and> res (handleRequest env b req args)
                      = Inl (Error (''501-notImplemented: '' @ X @ '' no handler registered''))))"
proof -
  let ?m = "matchedContext r req opn"
  let ?R = "handleRequest env b req args"
  have run: "?R = postStage b' (log (ensureInit env b)) args (inner b' r req args)"
    using assms(1-3) by (rule handleRequest_started)
  have inn: "inner b' r req args = (?m, routeStage b' X ?m args)"
    using assms(7) by (simp add: inner_matched [OF assms(4-6)] validateStage_def split: prod.split)
  have unv: "validation ?m = None"
    by (simp add: matchedContext_def routedContext_def)
  obtain evs out where rs: "routeStage b' X ?m args = (evs, out)"
    by (cases "routeStage b' X ?m args")
  have "\<forall>e \<in> set (log (ensureInit env b)). seen_validation e = None \<and> \<not> is_validate e"
    using ensureInit_log warning_unvalidated by blast
  from postStage_unvalidated [OF unv this routeStage_unvalidated [OF unv rs]]
  have all: "\<forall>e \<in> set (log ?R). seen_validation e = None \<and> \<not> is_validate e"
    by (simp add: run inn rs)
  then have v1: "filter is_validate (log ?R) = []"
    and v2: "filter (\<lambda>e. seen_validation e \<noteq> None) (log ?R) = []"
    by (simp_all add: filter_empty_conv)
  have v3: "operation ?m = matchOperation r req"
    by (simp add: matchedContext_def routedContext_def)
  have sites: "calls_at s (log ?R) = calls_at s (fst (routeStage b' X ?m args))"
    if "s \<noteq> PostResponseSite" for s
    using that by (simp add: run inn rs log_postStage_calls ensureInit_quiet)
  have result: "res ?R = snd (routeStage b' X ?m args)"
    if "\<not> registered b' ''postResponseHandler''"
    using that by (simp add: run inn rs res_postStage_plain handler_at_reserved)
  have v4: "calls_at ValidationFailSite (log ?R) = []"
    using routeStage_calls [OF rs] by (simp add: sites rs)
  have own: "calls_at RouteSite (log ?R) = [Call RouteSite X c args]
             \<and> calls_at NotImplementedSite (log ?R) = []
             \<and> (\<not> registered b' ''postResponseHandler'' \<longrightarrow> res ?R = h c args)"
    if "map_of (handlers b') X = Some (Fn h)" for h
  proof -
    have "routeStage b' X ?m args = ([Call RouteSite X c args], h c args)"
      using handler_at_own [OF that] assms(8) by (simp add: routeStage_Fn)
    then show ?thesis
      using result by (simp add: sites calls_at_single)
  qed
  have none: "\<not> truthy_h (handler_at b' X)" if "\<not> registered b' X \<and> \<not> inherited X"
    using that by (simp add: handler_at_plain)
  have f1: "calls_at RouteSite (log ?R) = []"
    if x: "\<not> registered b' X \<and> \<not> inherited X"
    using routeStage_unregistered [OF none [OF x] rs] by (simp add: sites rs)
  have f2: "calls_at NotImplementedSite (log ?R) = [Call NotImplementedSite ''501'' c args]
            \<and> (\<not> registered b' ''postResponseHandler'' \<longrightarrow> res ?R = g c args)"
    if x: "\<not> registered b' X \<and> \<not> inherited X" and g: "map_of (handlers b') ''501'' = Some (Fn g)"
    for g
  proof -
    have k: "handler_at b' ''501'' = Fn g"
      using g by (rule handler_at_own)
    have "routeStage b' X ?m args = ([Call NotImplementedSite ''501'' c args], g c args)"
      using routeStage_fallback [OF none [OF x], of "''501''" g ?m args] k assms(8) by simp
    then show ?thesis
      using result by (simp add: sites calls_at_single)
  qed
  have f3: "calls_at NotImplementedSite (log ?R) = [Call NotImplementedSite ''notImplemented'' c args]
            \<and> (\<not> registered b' ''postResponseHandler'' \<longrightarrow> res ?R = g c args)"
    if x: "\<not> registered b' X \<and> \<not> inherited X"
      and g: "\<not> registered b' ''501'' \<and> map_of (handlers b') ''notImplemented'' = Some (Fn g)"
    for g
  proof -
    have k: "handler_at b' ''notImplemented'' = Fn g"
      using g by (simp add: handler_at_own)
    have n: "\<not> truthy_h (handler_at b' ''501'')"
      using g by (simp add: handler_at_reserved)
    have "routeStage b' X ?m args = ([Call NotImplementedSite ''notImplemented'' c args], g c args)"
      using routeStage_fallback [OF none [OF x], of "''notImplemented''" g ?m args] k n assms(8)
      by simp
    then show ?thesis
      using result by (simp add: sites calls_at_single)
  qed
  have f4: "calls_at NotImplementedSite (log ?R) = []
            \<and> res ?R = Inl (Error (''501-notImplemented: '' @ X @ '' no handler registered''))"
    if x: "\<not> registered b' X \<and> \<not> inherited X"
      and g: "\<not> registered b' ''501'' \<and> \<not> registered b' ''notImplemented''"
  proof -
    have e: "routeStage b' X ?m args
          = ([], Inl (Error (''501-notImplemented: '' @ X @ '' no handler registered'')))"
      using none [OF x] g by (simp add: routeStage_raise handler_at_reserved)
    have "calls_at NotImplementedSite (log ?R) = []"
      by (simp add: sites e) (simp add: calls_at_def)
    moreover have "res ?R = Inl (Error (''501-notImplemented: '' @ X @ '' no handler registered''))"
      by (simp only: run inn e res_postStage_raise)
    ultimately show ?thesis by simp
  qed
  show ?thesis
    using v1 v2 v3 v4 own f1 f2 f3 f4 by blast
qed

section \<open>The pipeline on the pet store\<close>

lemmas init_defs = ensureInit_def init_def loadDocument_def validateDefinition_def finishInit_def
  registerHandler_def store_def allowedHandlers_def Let_def object_defs

lemmas dispatch_defs = handleRequest_def ensureInit_def postStage_def inner_def routedContext_def
  matchedContext_def validateStage_def routeStage_def notFoundStage_def either_key_def gate_def
  invoke_def handler_at_def objectPrototype_def calls_at_def Let_def

lemmas pet_defs = petBackend_def petRouter_def petRequest_def strayRequest_def getPetById_def
  rejecting_def reply_def enforcing_def advisory_def hooked_def wrapped_def fallback501_def
  fallbackNamed_def echoResponse_def rejectedContext_def unvalidating_def selective_def
  switchedOff_def

lemma ensureInit_empty:
  "ensureInit petEnv (newBackend []) = \<lparr>st = petBackend [], log = [], res = Inr ()\<rparr>"
  by (simp add: init_defs petEnv_def newBackend_def petBackend_def)

lemma ensureInit_enforcing:
  "ensureInit petEnv (newBackend enforcing) = \<lparr>st = petBackend enforcing, log = [], res = Inr ()\<rparr>"
  by (simp add: init_defs petEnv_def newBackend_def petBackend_def petRouter_def enforcing_def reply_def)

lemma ensureInit_advisory:
  "ensureInit petEnv (newBackend advisory) = \<lparr>st = petBackend advisory, log = [], res = Inr ()\<rparr>"
  by (simp add: init_defs petEnv_def newBackend_def petBackend_def petRouter_def advisory_def reply_def)

lemma ensureInit_hooked:
  "ensureInit petEnv (newBackend hooked) = \<lparr>st = petBackend hooked, log = [], res = Inr ()\<rparr>"
  by (simp add: init_defs petEnv_def newBackend_def petBackend_def petRouter_def hooked_def reply_def
      echoResponse_def)

lemma ensureInit_wrapped:
  "ensureInit petEnv (newBackend wrapped) = \<lparr>st = petBackend wrapped, log = [], res = Inr ()\<rparr>"
  by (simp add: init_defs petEnv_def newBackend_def petBackend_def petRouter_def wrapped_def reply_def
      echoResponse_def)

text \<open>
  \<^verbatim>\<open>init\<close> registers the table in the order of \<^verbatim>\<open>for ... in\<close>: the key
  \<^verbatim>\<open>404\<close> before \<^verbatim>\<open>orphan\<close>, although it was created after it.
\<close>

lemma init_registers_in_key_order:
  "log (init petEnv (newBackend [(''orphan'', reply ''a''), (''404'', reply ''b'')]))
   = [Warn ''Unknown operationId 404'', Warn ''Unknown operationId orphan'']"
  by (simp add: init_defs petEnv_def newBackend_def petRouter_def reply_def)

lemma pet_matched:
  "matchOperation petRouter petRequest = Some getPetById"
  "operationId getPetById = Some ''getPetById''"
  "matchOperation petRouter strayRequest = None"
  by (simp_all add: petRouter_def petRequest_def strayRequest_def getPetById_def)

lemma pet_rejected: "errors (validateRequest rejecting petRequest getPetById) \<noteq> None"
  by (simp add: rejecting_def)

lemma petBackend_fields:
  "router (petBackend hs) = Some petRouter"
  "validator (petBackend hs) = Some rejecting"
  "withContext (petBackend hs) = True"
  "gate (petBackend hs) c args"
  by (simp_all add: petBackend_def gate_def)

lemma switchedOff_fields:
  "res (ensureInit env (switchedOff hs)) = Inr ()"
  "st (ensureInit env (switchedOff hs)) = switchedOff hs"
  "router (switchedOff hs) = Some petRouter"
  "withContext (switchedOff hs) = True"
  "\<not> gate (switchedOff hs) c args"
  "handlers (switchedOff hs) = hs"
  by (simp_all add: ensureInit_def switchedOff_def petBackend_def gate_def)

lemma petBackend_handler:
  "handler_at (petBackend hs) k
   = (case map_of hs k of
        Some h \<Rightarrow> h
      | None \<Rightarrow> (case map_of objectPrototype k of Some h \<Rightarrow> h | None \<Rightarrow> NonFn JUndefined))"
  by (simp add: petBackend_def handler_at_def)

lemma petBackend_registered:
  "registered (petBackend hs) k = (case map_of hs k of None \<Rightarrow> False | Some h \<Rightarrow> truthy_h h)"
  "registered (switchedOff hs) k = (case map_of hs k of None \<Rightarrow> False | Some h \<Rightarrow> truthy_h h)"
  by (simp_all add: petBackend_def switchedOff_def registered_def)

text \<open>
  What the own-entry reading of the table would miss: with nothing registered, an
  operation named like a member of \<^verbatim>\<open>Object.prototype\<close> is answered by that member.
\<close>

lemma inherited_member_is_called:
  "\<not> registered (petBackend []) ''toString'' \<and> inherited ''toString''
   \<and> routeStage (petBackend []) ''toString'' ctx []
       = ([Call RouteSite ''toString'' (Some ctx) []], Inr (JStr ''[object Undefined]''))
   \<and> routeStage (petBackend []) ''constructor'' ctx []
       = ([Call RouteSite ''constructor'' (Some ctx) []], Inr JContext)
   \<and> routeStage (petBackend []) ''__proto__'' ctx []
       = ([], Inl (TypeError ''handler is not a function''))"
  by (simp add: routeStage_def invoke_def petBackend_handler petBackend_fields petBackend_registered
      inherited_def objectPrototype_def objectConstructor_def)

theorem missing_fallback_raises_witness:
  "res (ensureInit petEnv (newBackend [])) = Inr ()
   \<and> matchOperation petRouter strayRequest = None
   \<and> \<not> registered (petBackend []) ''404''
   \<and> \<not> registered (petBackend []) ''notFound''
   \<and> res (handleRequest petEnv (newBackend []) strayRequest [])
       = Inl (Error ''404-notFound: no route matches request'')
   \<and> log (handleRequest petEnv (newBackend []) strayRequest []) = []
   \<and> matchOperation petRouter petRequest = Some getPetById
   \<and> \<not> registered (petBackend []) ''getPetById'' \<and> \<not> inherited ''getPetById''
   \<and> \<not> registered (petBackend []) ''501''
   \<and> \<not> registered (petBackend []) ''notImplemented''
   \<and> \<not> registered (petBackend []) ''validationFail''
   \<and> res (handleRequest petEnv (newBackend []) petRequest [])
       = Inl (Error ''501-notImplemented: getPetById no handler registered'')
   \<and> calls_at RouteSite (log (handleRequest petEnv (newBackend []) petRequest [])) = []
   \<and> st (handleRequest petEnv (newBackend []) petRequest []) = petBackend []
   \<and> initalized (petBackend [])"
proof -
  have ok: "res (ensureInit petEnv (newBackend [])) = Inr ()"
    and st: "st (ensureInit petEnv (newBackend [])) = petBackend []"
    and lg: "log (ensureInit petEnv (newBackend [])) = []"
    by (simp_all add: ensureInit_empty)
  have none: "\<not> registered (petBackend []) k" for k
    by (simp add: petBackend_registered)
  have ni: "\<not> inherited ''getPetById''"
    by (simp add: inherited_def objectPrototype_def)
  note t = missing_fallback_raises [OF ok st petBackend_fields(1,2)]
  have a: "res (handleRequest petEnv (newBackend []) strayRequest [])
             = Inl (Error ''404-notFound: no route matches request'')
           \<and> filter (\<lambda>e. \<not> is_warning e) (log (handleRequest petEnv (newBackend []) strayRequest [])) = []"
    using t [of strayRequest "[]"] pet_matched(3) none by blast
  have la: "log (handleRequest petEnv (newBackend []) strayRequest []) = []"
    by (simp add: handleRequest_started [OF ok st petBackend_fields(1)] lg inner_unrouted pet_matched
        notFoundStage_def either_key_def handler_at_reserved none postStage_def)
  have b: "res (handleRequest petEnv (newBackend []) petRequest [])
             = Inl (Error ''501-notImplemented: getPetById no handler registered'')
           \<and> calls_at RouteSite (log (handleRequest petEnv (newBackend []) petRequest [])) = []"
    using t [of petRequest "[]"] pet_matched(1,2) none ni by simp
  have c: "st (handleRequest petEnv (newBackend []) petRequest []) = petBackend []
           \<and> initalized (petBackend [])"
    using t [of petRequest "[]"] by blast
  show ?thesis
    using ok pet_matched none ni a la b c by simp
qed

text \<open>
  The second half of C1 without the exception for validation: the operation is matched,
  nothing is registered under its id, under \<^verbatim>\<open>501\<close> or under \<^verbatim>\<open>notImplemented\<close>,
  the id names no inherited member, and the request is answered by the
  \<^verbatim>\<open>validationFail\<close> handler instead of failing.
\<close>

theorem missing_fallback_raises_counterexample:
  "initalized (petBackend [(''validationFail'', reply ''invalid'')])
   \<and> matchOperation petRouter petRequest = Some getPetById
   \<and> operationId getPetById = Some ''getPetById''
   \<and> \<not> registered (petBackend [(''validationFail'', reply ''invalid'')]) ''getPetById''
   \<and> \<not> inherited ''getPetById''
   \<and> \<not> registered (petBackend [(''validationFail'', reply ''invalid'')]) ''501''
   \<and> \<not> registered (petBackend [(''validationFail'', reply ''invalid'')]) ''notImplemented''
   \<and> res (handleRequest petEnv (petBackend [(''validationFail'', reply ''invalid'')]) petRequest [])
       = Inr (JStr ''invalid'')"
  by (simp add: dispatch_defs pet_defs registered_def inherited_def)

theorem validation_is_advisory_witness:
  "res (ensureInit petEnv (newBackend enforcing)) = Inr ()
   \<and> res (ensureInit petEnv (newBackend advisory)) = Inr ()
   \<and> res (ensureInit petEnv (newBackend wrapped)) = Inr ()
   \<and> matchOperation petRouter petRequest = Some getPetById
   \<and> gate (petBackend enforcing) (matchedContext petRouter petRequest getPetById) []
   \<and> errors (validateRequest rejecting petRequest getPetById) \<noteq> None
   \<and> handler_at (petBackend enforcing) ''validationFail'' = reply ''invalid''
   \<and> \<not> truthy_h (handler_at (petBackend enforcing) ''postResponseHandler'')
   \<and> calls_at ValidationFailSite (log (handleRequest petEnv (newBackend enforcing) petRequest []))
       = [Call ValidationFailSite ''validationFail'' (Some rejectedContext) []]
   \<and> calls_at RouteSite (log (handleRequest petEnv (newBackend enforcing) petRequest [])) = []
   \<and> res (handleRequest petEnv (newBackend enforcing) petRequest []) = Inr (JStr ''invalid'')
   \<and> \<not> truthy_h (handler_at (petBackend advisory) ''validationFail'')
   \<and> handler_at (petBackend advisory) ''getPetById'' = reply ''pet''
   \<and> \<not> truthy_h (handler_at (petBackend advisory) ''postResponseHandler'')
   \<and> calls_at ValidationFailSite (log (handleRequest petEnv (newBackend advisory) petRequest [])) = []
   \<and> calls_at RouteSite (log (handleRequest petEnv (newBackend advisory) petRequest []))
       = [Call RouteSite ''getPetById'' (Some rejectedContext) []]
   \<and> inner (petBackend advisory) petRouter petRequest []
       = (rejectedContext, [Validate petRequest getPetById,
            Call RouteSite ''getPetById'' (Some rejectedContext) []], Inr (JStr ''pet''))
   \<and> res (handleRequest petEnv (newBackend advisory) petRequest []) = Inr (JStr ''pet'')
   \<and> \<not> truthy_h (handler_at (petBackend wrapped) ''validationFail'')
   \<and> handler_at (petBackend wrapped) ''getPetById'' = reply ''pet''
   \<and> handler_at (petBackend wrapped) ''postResponseHandler'' = echoResponse
   \<and> res (handleRequest petEnv (newBackend wrapped) petRequest []) = Inr (JStr ''pet'')"
proof -
  have ne: "''getPetById'' \<noteq> []" by simp
  have ctx: "rejectedContext = (matchedContext petRouter petRequest getPetById)
               \<lparr>validation := Some (validateRequest rejecting petRequest getPetById)\<rparr>"
    by (simp add: rejectedContext_def)
  have vf: "handler_at (petBackend enforcing) ''validationFail'' = Fn (\<lambda>c args. Inr (JStr ''invalid''))"
    and gp: "handler_at (petBackend advisory) ''getPetById'' = Fn (\<lambda>c args. Inr (JStr ''pet''))"
    and gw: "handler_at (petBackend wrapped) ''getPetById'' = Fn (\<lambda>c args. Inr (JStr ''pet''))"
    and pw: "handler_at (petBackend wrapped) ''postResponseHandler''
             = Fn (\<lambda>c args. Inr (case c of None \<Rightarrow> JUndefined
                    | Some x \<Rightarrow> (case response x of None \<Rightarrow> JUndefined | Some y \<Rightarrow> y)))"
    and no: "\<not> truthy_h (handler_at (petBackend advisory) ''validationFail'')"
      "\<not> truthy_h (handler_at (petBackend wrapped) ''validationFail'')"
    and np: "\<not> truthy_h (handler_at (petBackend enforcing) ''postResponseHandler'')"
      "\<not> truthy_h (handler_at (petBackend advisory) ''postResponseHandler'')"
    by (simp_all add: petBackend_handler objectPrototype_def enforcing_def advisory_def wrapped_def
        reply_def echoResponse_def)
  have c: "Some rejectedContext = (if withContext (petBackend hs) then Some rejectedContext else None)" for hs
    by (simp add: petBackend_fields)
  have ie: "res (ensureInit petEnv (newBackend enforcing)) = Inr ()"
      "st (ensureInit petEnv (newBackend enforcing)) = petBackend enforcing"
    and ia: "res (ensureInit petEnv (newBackend advisory)) = Inr ()"
      "st (ensureInit petEnv (newBackend advisory)) = petBackend advisory"
    and iw: "res (ensureInit petEnv (newBackend wrapped)) = Inr ()"
      "st (ensureInit petEnv (newBackend wrapped)) = petBackend wrapped"
    by (simp_all add: ensureInit_enforcing ensureInit_advisory ensureInit_wrapped)
  note te = validation_is_advisory [OF ie petBackend_fields(1,2) pet_matched(1,2) ne
      petBackend_fields(4) ctx c]
  note ta = validation_is_advisory [OF ia petBackend_fields(1,2) pet_matched(1,2) ne
      petBackend_fields(4) ctx c]
  note tw = validation_is_advisory [OF iw petBackend_fields(1,2) pet_matched(1,2) ne
      petBackend_fields(4) ctx c]
  have a: "calls_at ValidationFailSite (log (handleRequest petEnv (newBackend enforcing) petRequest []))
             = [Call ValidationFailSite ''validationFail'' (Some rejectedContext) []]
           \<and> calls_at RouteSite (log (handleRequest petEnv (newBackend enforcing) petRequest [])) = []"
    using te pet_rejected vf by blast
  have "res (handleRequest petEnv (newBackend enforcing) petRequest [])
        = (\<lambda>c args. Inr (JStr ''invalid'')) (Some rejectedContext) []"
    using te pet_rejected vf np(1) by blast
  then have ar: "res (handleRequest petEnv (newBackend enforcing) petRequest []) = Inr (JStr ''invalid'')"
    by simp
  have b: "calls_at ValidationFailSite (log (handleRequest petEnv (newBackend advisory) petRequest [])) = []
           \<and> calls_at RouteSite (log (handleRequest petEnv (newBackend advisory) petRequest []))
               = [Call RouteSite ''getPetById'' (Some rejectedContext) []]
           \<and> inner (petBackend advisory) petRouter petRequest []
               = (rejectedContext, [Validate petRequest getPetById,
                    Call RouteSite ''getPetById'' (Some rejectedContext) []], Inr (JStr ''pet''))"
    using ta gp no(1) by blast
  have "res (handleRequest petEnv (newBackend advisory) petRequest [])
        = (\<lambda>c args. Inr (JStr ''pet'')) (Some rejectedContext) []"
    using ta gp no(1) np(2) by blast
  then have br: "res (handleRequest petEnv (newBackend advisory) petRequest []) = Inr (JStr ''pet'')"
    by simp
  have hw: "(\<lambda>c args. Inr (JStr ''pet'')) (Some rejectedContext) [] = (Inr (JStr ''pet'') :: error + jsvalue)"
    by simp
  have "res (handleRequest petEnv (newBackend wrapped) petRequest [])
        = (\<lambda>c args. Inr (case c of None \<Rightarrow> JUndefined
              | Some x \<Rightarrow> (case response x of None \<Rightarrow> JUndefined | Some y \<Rightarrow> y)))
            (if withContext (petBackend wrapped)
             then Some (rejectedContext\<lparr>response := Some (JStr ''pet'')\<rparr>) else None) []"
    using tw gw pw no(2) hw by blast
  then have wr: "res (handleRequest petEnv (newBackend wrapped) petRequest []) = Inr (JStr ''pet'')"
    by (simp add: petBackend_fields)
  show ?thesis
    using a ar b br wr ie ia iw pet_matched pet_rejected no np vf gp gw pw
    by (simp add: petBackend_fields reply_def echoResponse_def del: truthy_h.simps)
qed

theorem registered_handler_dispatch_witness:
  "res (ensureInit petEnv unvalidating) = Inr ()
   \<and> matchOperation petRouter petRequest = Some getPetById
   \<and> operationId getPetById = Some ''getPetById''
   \<and> handler_at unvalidating ''getPetById'' = reply ''pet''
   \<and> \<not> gate unvalidating (matchedContext petRouter petRequest getPetById) []
   \<and> calls_at RouteSite (log (handleRequest petEnv unvalidating petRequest []))
       = [Call RouteSite ''getPetById'' (Some (matchedContext petRouter petRequest getPetById)) []]
   \<and> calls_at NotFoundSite (log (handleRequest petEnv unvalidating petRequest [])) = []
   \<and> calls_at NotImplementedSite (log (handleRequest petEnv unvalidating petRequest [])) = []
   \<and> calls_at ValidationFailSite (log (handleRequest petEnv unvalidating petRequest [])) = []"
proof -
  have i: "res (ensureInit petEnv unvalidating) = Inr ()" "st (ensureInit petEnv unvalidating) = unvalidating"
    and f: "router unvalidating = Some petRouter" "validator unvalidating = Some rejecting"
    and g: "\<not> gate unvalidating (matchedContext petRouter petRequest getPetById) []"
    and w: "withContext unvalidating"
    by (simp_all add: ensureInit_def unvalidating_def petBackend_def gate_def)
  have h: "handler_at unvalidating ''getPetById'' = Fn (\<lambda>c args. Inr (JStr ''pet''))"
    by (simp add: handler_at_def unvalidating_def petBackend_def enforcing_def reply_def)
  have ne: "''getPetById'' \<noteq> []" by simp
  have n: "\<not> (gate unvalidating (matchedContext petRouter petRequest getPetById) []
              \<and> errors (validateRequest rejecting petRequest getPetById) \<noteq> None
              \<and> truthy_h (handler_at unvalidating ''validationFail''))"
    using g by simp
  have ctx: "matchedContext petRouter petRequest getPetById
             = (if gate unvalidating (matchedContext petRouter petRequest getPetById) []
                then (matchedContext petRouter petRequest getPetById)
                       \<lparr>validation := Some (validateRequest rejecting petRequest getPetById)\<rparr>
                else matchedContext petRouter petRequest getPetById)"
    using g by simp
  have c: "Some (matchedContext petRouter petRequest getPetById)
           = (if withContext unvalidating then Some (matchedContext petRouter petRequest getPetById) else None)"
    using w by simp
  note t = registered_handler_dispatch [OF i f pet_matched(1,2) ne h n ctx c]
  show ?thesis
    using t i(1) pet_matched(1,2) h g by (simp add: reply_def)
qed

text \<open>
  C3 as stated fails on the enforcing table: a handler is registered for
  \<^verbatim>\<open>getPetById\<close>, the request matches it, and the only handler called is
  \<^verbatim>\<open>validationFail\<close>.
\<close>

theorem registered_handler_dispatch_counterexample:
  "initalized (petBackend enforcing)
   \<and> handler_at (petBackend enforcing) ''getPetById'' = reply ''pet''
   \<and> matchOperation petRouter petRequest = Some getPetById
   \<and> operationId getPetById = Some ''getPetById''
   \<and> calls_at RouteSite (log (handleRequest petEnv (petBackend enforcing) petRequest [])) = []
   \<and> calls_at ValidationFailSite (log (handleRequest petEnv (petBackend enforcing) petRequest []))
       = [Call ValidationFailSite ''validationFail'' (Some rejectedContext) []]"
  by (simp add: dispatch_defs pet_defs)

theorem post_response_hook_witness:
  "res (ensureInit petEnv (newBackend hooked)) = Inr ()
   \<and> handler_at (petBackend hooked) ''postResponseHandler'' = echoResponse
   \<and> inner (petBackend hooked) petRouter strayRequest []
       = (routedContext petRouter strayRequest,
          [Call NotFoundSite ''notFound'' (Some (routedContext petRouter strayRequest)) []],
          Inr (JStr ''no such route''))
   \<and> calls_at PostResponseSite (log (handleRequest petEnv (newBackend hooked) strayRequest []))
       = [Call PostResponseSite ''postResponseHandler''
            (Some ((routedContext petRouter strayRequest)\<lparr>response := Some (JStr ''no such route'')\<rparr>)) []]
   \<and> res (handleRequest petEnv (newBackend hooked) strayRequest []) = Inr (JStr ''no such route'')"
proof -
  have i: "res (ensureInit petEnv (newBackend hooked)) = Inr ()"
      "st (ensureInit petEnv (newBackend hooked)) = petBackend hooked"
    by (simp_all add: ensureInit_hooked)
  have p: "handler_at (petBackend hooked) ''postResponseHandler''
           = Fn (\<lambda>c args. Inr (case c of None \<Rightarrow> JUndefined
                  | Some x \<Rightarrow> (case response x of None \<Rightarrow> JUndefined | Some y \<Rightarrow> y)))"
    by (simp add: petBackend_handler hooked_def echoResponse_def)
  have inn: "inner (petBackend hooked) petRouter strayRequest []
             = (routedContext petRouter strayRequest,
                [Call NotFoundSite ''notFound'' (Some (routedContext petRouter strayRequest)) []],
                Inr (JStr ''no such route''))"
    by (simp add: inner_unrouted pet_matched notFoundStage_def either_key_def invoke_def
        petBackend_handler objectPrototype_def petBackend_fields hooked_def reply_def Let_def)
  have c: "Some ((routedContext petRouter strayRequest)\<lparr>response := Some (JStr ''no such route'')\<rparr>)
           = (if withContext (petBackend hooked)
              then Some ((routedContext petRouter strayRequest)\<lparr>response := Some (JStr ''no such route'')\<rparr>)
              else None)"
    by (simp add: petBackend_fields)
  note t = post_response_hook [OF i petBackend_fields(1) p inn c]
  have a: "calls_at PostResponseSite (log (handleRequest petEnv (newBackend hooked) strayRequest []))
           = [Call PostResponseSite ''postResponseHandler''
                (Some ((routedContext petRouter strayRequest)\<lparr>response := Some (JStr ''no such route'')\<rparr>)) []]"
    using t by blast
  have b: "res (handleRequest petEnv (newBackend hooked) strayRequest []) = Inr (JStr ''no such route'')"
    using t [THEN conjunct2, THEN conjunct2] by simp
  show ?thesis
    using a b i(1) inn p by (simp add: echoResponse_def)
qed

theorem gate_off_skips_validation_witness:
  "res (ensureInit petEnv (switchedOff enforcing)) = Inr ()
   \<and> matchOperation petRouter petRequest = Some getPetById
   \<and> \<not> gate (switchedOff enforcing) (matchedContext petRouter petRequest getPetById) []
   \<and> filter is_validate (log (handleRequest petEnv (switchedOff enforcing) petRequest [])) = []
   \<and> filter (\<lambda>e. seen_validation e \<noteq> None)
        (log (handleRequest petEnv (switchedOff enforcing) petRequest [])) = []
   \<and> map_of (handlers (switchedOff enforcing)) ''getPetById'' = Some (reply ''pet'')
   \<and> calls_at RouteSite (log (handleRequest petEnv (switchedOff enforcing) petRequest []))
       = [Call RouteSite ''getPetById'' (Some (matchedContext petRouter petRequest getPetById)) []]
   \<and> calls_at ValidationFailSite (log (handleRequest petEnv (switchedOff enforcing) petRequest [])) = []
   \<and> res (handleRequest petEnv (switchedOff enforcing) petRequest []) = Inr (JStr ''pet'')
   \<and> \<not> registered (switchedOff fallback501) ''getPetById'' \<and> \<not> inherited ''getPetById''
   \<and> map_of (handlers (switchedOff fallback501)) ''501'' = Some (reply ''todo'')
   \<and> calls_at NotImplementedSite (log (handleRequest petEnv (switchedOff fallback501) petRequest []))
       = [Call NotImplementedSite ''501'' (Some (matchedContext petRouter petRequest getPetById)) []]
   \<and> calls_at RouteSite (log (handleRequest petEnv (switchedOff fallback501) petRequest [])) = []
   \<and> res (handleRequest petEnv (switchedOff fallback501) petRequest []) = Inr (JStr ''todo'')
   \<and> \<not> registered (switchedOff fallbackNamed) ''501''
   \<and> map_of (handlers (switchedOff fallbackNamed)) ''notImplemented'' = Some (reply ''later'')
   \<and> calls_at NotImplementedSite (log (handleRequest petEnv (switchedOff fallbackNamed) petRequest []))
       = [Call NotImplementedSite ''notImplemented''
            (Some (matchedContext petRouter petRequest getPetById)) []]
   \<and> res (handleRequest petEnv (switchedOff fallbackNamed) petRequest []) = Inr (JStr ''later'')
   \<and> \<not> registered (switchedOff []) ''501'' \<and> \<not> registered (switchedOff []) ''notImplemented''
   \<and> calls_at NotImplementedSite (log (handleRequest petEnv (switchedOff []) petRequest [])) = []
   \<and> res (handleRequest petEnv (switchedOff []) petRequest [])
       = Inl (Error ''501-notImplemented: getPetById no handler registered'')"
proof -
  let ?m = "matchedContext petRouter petRequest getPetById"
  have ne: "''getPetById'' \<noteq> []" by simp
  have ni: "\<not> inherited ''getPetById''"
    by (simp add: inherited_def objectPrototype_def)
  have c: "Some ?m = (if withContext (switchedOff hs) then Some ?m else None)" for hs
    by (simp add: switchedOff_fields)
  note t = gate_off_skips_validation [OF switchedOff_fields(1,2,3) pet_matched(1,2) ne
      switchedOff_fields(5) c]
  have own: "map_of (handlers (switchedOff enforcing)) ''getPetById'' = Some (Fn (\<lambda>c args. Inr (JStr ''pet'')))"
    and np: "\<not> registered (switchedOff hs) ''postResponseHandler''"
      if "hs \<in> {enforcing, fallback501, fallbackNamed, []}" for hs
    using that
    by (auto simp: switchedOff_fields petBackend_registered enforcing_def fallback501_def
        fallbackNamed_def reply_def)
  have f5: "map_of (handlers (switchedOff fallback501)) ''501'' = Some (Fn (\<lambda>c args. Inr (JStr ''todo'')))"
    and fn: "map_of (handlers (switchedOff fallbackNamed)) ''notImplemented''
             = Some (Fn (\<lambda>c args. Inr (JStr ''later'')))"
    and un: "\<not> registered (switchedOff fallback501) ''getPetById''"
      "\<not> registered (switchedOff fallbackNamed) ''getPetById''"
      "\<not> registered (switchedOff []) ''getPetById''"
      "\<not> registered (switchedOff fallbackNamed) ''501''"
      "\<not> registered (switchedOff []) ''501''"
      "\<not> registered (switchedOff []) ''notImplemented''"
    by (simp_all add: switchedOff_fields petBackend_registered fallback501_def fallbackNamed_def
        reply_def)
  have a: "filter is_validate (log (handleRequest petEnv (switchedOff enforcing) petRequest [])) = []
           \<and> filter (\<lambda>e. seen_validation e \<noteq> None)
                (log (handleRequest petEnv (switchedOff enforcing) petRequest [])) = []
           \<and> calls_at ValidationFailSite (log (handleRequest petEnv (switchedOff enforcing) petRequest [])) = []
           \<and> calls_at RouteSite (log (handleRequest petEnv (switchedOff enforcing) petRequest []))
               = [Call RouteSite ''getPetById'' (Some ?m) []]"
    using t [of petEnv enforcing "[]"] own [of enforcing] by blast
  have "res (handleRequest petEnv (switchedOff enforcing) petRequest [])
        = (\<lambda>c args. Inr (JStr ''pet'')) (Some ?m) []"
    using t [of petEnv enforcing "[]"] own [of enforcing] np [of enforcing] by blast
  then have ar: "res (handleRequest petEnv (switchedOff enforcing) petRequest []) = Inr (JStr ''pet'')"
    by simp
  have b: "calls_at NotImplementedSite (log (handleRequest petEnv (switchedOff fallback501) petRequest []))
             = [Call NotImplementedSite ''501'' (Some ?m) []]
           \<and> calls_at RouteSite (log (handleRequest petEnv (switchedOff fallback501) petRequest [])) = []"
    using t [of petEnv fallback501 "[]"] un(1) ni f5 by blast
  have "res (handleRequest petEnv (switchedOff fallback501) petRequest [])
        = (\<lambda>c args. Inr (JStr ''todo'')) (Some ?m) []"
    using t [of petEnv fallback501 "[]"] un(1) ni f5 np [of fallback501] by blast
  then have br: "res (handleRequest petEnv (switchedOff fallback501) petRequest []) = Inr (JStr ''todo'')"
    by simp
  have d: "calls_at NotImplementedSite (log (handleRequest petEnv (switchedOff fallbackNamed) petRequest []))
             = [Call NotImplementedSite ''notImplemented'' (Some ?m) []]"
    using t [of petEnv fallbackNamed "[]"] un(2,4) ni fn by blast
  have "res (handleRequest petEnv (switchedOff fallbackNamed) petRequest [])
        = (\<lambda>c args. Inr (JStr ''later'')) (Some ?m) []"
    using t [of petEnv fallbackNamed "[]"] un(2,4) ni fn np [of fallbackNamed] by blast
  then have dr: "res (handleRequest petEnv (switchedOff fallbackNamed) petRequest []) = Inr (JStr ''later'')"
    by simp
  have e: "calls_at NotImplementedSite (log (handleRequest petEnv (switchedOff []) petRequest [])) = []
           \<and> res (handleRequest petEnv (switchedOff []) petRequest [])
               = Inl (Error (''501-notImplemented: '' @ ''getPetById'' @ '' no handler registered''))"
    using t [of petEnv "[]" "[]"] un(3,5,6) ni by blast
  show ?thesis
    using a ar b br d dr e un ni own [of enforcing] f5 fn pet_matched(1)
    by (simp add: switchedOff_fields reply_def)
qed

text \<open>
  The last part of C10 as stated fails: two backends that differ in the gate alone
  select different handlers for the same request.
\<close>

theorem gate_off_skips_validation_counterexample:
  "unvalidating = (petBackend enforcing)\<lparr>validate := VBool False\<rparr>
   \<and> \<not> gate unvalidating (matchedContext petRouter petRequest getPetById) []
   \<and> gate (petBackend enforcing) (matchedContext petRouter petRequest getPetById) []
   \<and> calls_at RouteSite (log (handleRequest petEnv unvalidating petRequest []))
       = [Call RouteSite ''getPetById'' (Some (matchedContext petRouter petRequest getPetById)) []]
   \<and> calls_at ValidationFailSite (log (handleRequest petEnv unvalidating petRequest [])) = []
   \<and> calls_at RouteSite (log (handleRequest petEnv (petBackend enforcing) petRequest [])) = []
   \<and> calls_at ValidationFailSite (log (handleRequest petEnv (petBackend enforcing) petRequest []))
       = [Call ValidationFailSite ''validationFail'' (Some rejectedContext) []]"
  by (simp add: dispatch_defs pet_defs)

section \<open>The mock selector\<close>

lemma string_of_nat_digits:
  "string_of_nat n \<noteq> [] \<and> set (string_of_nat n) \<subseteq> set ''0123456789''"
proof (induction n rule: string_of_nat.induct)
  case (1 n)
  have d: "''0123456789'' ! k \<in> set ''0123456789''" if "k < 10" for k :: nat
    using that by (intro nth_mem) simp
  show ?case
  proof (cases "n < 10")
    case True
    then show ?thesis
      using d [of n] by (subst (1 2) string_of_nat.simps) simp
  next
    case False
    have "n mod 10 < 10" by simp
    from d [OF this] "1.IH" [OF False] False show ?thesis
      by (subst (1 2) string_of_nat.simps) simp
  qed
qed

lemma number_not_inherited: "\<not> inherited (string_of_number c)"
proof -
  have h: "hd (string_of_number c) \<in> set ''-0123456789''"
  proof (cases "c < 0")
    case True
    then show ?thesis by (simp add: string_of_number_def)
  next
    case False
    have "hd (string_of_nat (nat c)) \<in> set (string_of_nat (nat c))"
      using string_of_nat_digits [of "nat c"] by simp
    then have "hd (string_of_nat (nat c)) \<in> set ''0123456789''"
      using string_of_nat_digits [of "nat c"] by blast
    with False show ?thesis by (simp add: string_of_number_def)
  qed
  have "hd k \<notin> set ''-0123456789''" if "inherited k" for k
    using that by (auto simp: inherited_members)
  with h show ?thesis by blast
qed

lemma getProperty_own: "map_of obj k = Some v \<Longrightarrow> getProperty obj k = Own v"
  by (simp add: getProperty_def)

lemma getProperty_missing: "map_of obj k = None \<Longrightarrow> \<not> inherited k \<Longrightarrow> getProperty obj k = Missing"
  by (simp add: getProperty_def)

lemma resolveStatus_declared:
  "opt_code opts = Some c \<Longrightarrow> c \<noteq> 0 \<Longrightarrow> map_of rs (string_of_number c) = Some resp \<Longrightarrow>
   resolveStatus env rs opts = (c, Some resp)"
  by (simp add: resolveStatus_def getProperty_own)

lemma resolveStatus_default:
  "opt_code opts = None \<or> opt_code opts = Some 0
     \<or> (\<exists>c. opt_code opts = Some c \<and> map_of rs (string_of_number c) = None) \<Longrightarrow>
   resolveStatus env rs opts = findDefaultStatusCodeMatch env rs"
  by (auto simp: resolveStatus_def getProperty_missing number_not_inherited)

lemma resolveMedia_reached:
  assumes "mt = (if given (opt_mediaType opts) then the (opt_mediaType opts) else ''application/json'')"
    and "map_of cont mt = Some m
         \<or> (map_of cont mt = None \<and> \<not> inherited mt
             \<and> (\<exists>k ks. objectKeys cont = k # ks \<and> map_of cont k = Some m))"
  shows "resolveMedia cont opts = Some m"
  using assms by (auto simp: resolveMedia_def mediaTypeOf_def getProperty_own getProperty_missing)

lemma resolveMedia_empty: "resolveMedia [] opts = None \<or> resolveMedia [] opts = Some memberEntry"
  by (simp add: resolveMedia_def getProperty_def objectKeys_def)

lemma pickMock_bare:
  "examples m = None \<Longrightarrow> \<not> truthy (example m) \<Longrightarrow> \<not> truthy (schema m) \<Longrightarrow>
   pickMock env status m opts = Inr (status, defaultMock)"
  by (simp add: pickMock_def namedExample_def unnamedMock_def)

lemma unnamedMock_total:
  assumes "\<not> (examples m = Some [] \<and> \<not> truthy (example m))"
  shows "\<exists>body. unnamedMock env status m = Inr (status, body)"
proof (cases "truthy (example m)")
  case True
  then show ?thesis by (simp add: unnamedMock_def)
next
  case False
  show ?thesis
  proof (cases "examples m")
    case None
    with False show ?thesis by (simp add: unnamedMock_def)
  next
    case (Some exs)
    with assms False have "exs \<noteq> []" by simp
    then obtain k ks where ks: "objectKeys exs = k # ks"
      by (cases "objectKeys exs") (simp_all add: objectKeys_empty)
    from objectKeys_first_own [OF this] obtain eo where "map_of exs k = Some eo" by blast
    with False Some ks show ?thesis by (simp add: unnamedMock_def)
  qed
qed

lemma pickMock_total:
  assumes "\<not> (examples m = Some [] \<and> \<not> truthy (example m))"
  shows "\<exists>body. pickMock env status m opts = Inr (status, body)"
  using unnamedMock_total [OF assms, of env status]
  by (auto simp: pickMock_def split: option.split)

lemma mock_resolved:
  assumes "router b = Some r" and "selectMedia env r opId opts = (status, Some m)"
  shows "mockResponseForOperation env b opId opts = pickMock env status m opts"
  using assms by (simp add: mockResponseForOperation_def)

lemma mock_unresolved:
  assumes "router b = Some r" and "selectMedia env r opId opts = (status, None)"
  shows "mockResponseForOperation env b opId opts = Inr (status, defaultMock)"
  using assms by (simp add: mockResponseForOperation_def)

lemma selectMedia_content:
  assumes "getOperation r opId = Some opn" and "responses opn = Some rs"
    and "resolveStatus env rs opts = (status, Some resp)" and "content resp = Some cont"
  shows "selectMedia env r opId opts = (status, resolveMedia cont opts)"
  using assms by (simp add: selectMedia_def)

lemma selectMedia_no_content:
  assumes "getOperation r opId = Some opn" and "responses opn = Some rs"
    and "resolveStatus env rs opts = (status, sel)"
    and "sel = None \<or> (\<exists>resp. sel = Some resp \<and> content resp = None)"
  shows "selectMedia env r opId opts = (status, None)"
  using assms by (auto simp: selectMedia_def)

text \<open>
  C4, as the code has it. On a backend with a router: for an unknown operation and for
  an operation without responses the result is status 200 with the empty object.
  Otherwise the status is \<^verbatim>\<open>opts.code\<close> when that is not zero and the operation
  declares a response under it, and else the status \<^verbatim>\<open>findDefaultStatusCodeMatch\<close>
  gives; with that status the result is the empty object when there is no response, no
  content, an empty content map, or an entry with neither examples nor a truthy inline
  example nor a truthy schema; and the call returns a pair with that status whenever
  the entry it reaches is not one with an empty examples object and no truthy inline
  example.
\<close>

theorem mock_fallback:
  assumes "router b = Some r"
  shows "(getOperation r opId = None \<longrightarrow>
            mockResponseForOperation env b opId opts = Inr (200, defaultMock))
       \<and> (\<forall>opn. getOperation r opId = Some opn \<and> responses opn = None \<longrightarrow>
            mockResponseForOperation env b opId opts = Inr (200, defaultMock))
       \<and> (\<forall>opn rs status sel.
            getOperation r opId = Some opn \<and> responses opn = Some rs
            \<and> ((\<exists>c resp. opt_code opts = Some c \<and> c \<noteq> 0
                       \<and> map_of rs (string_of_number c) = Some resp
                       \<and> status = c \<and> sel = Some resp)
                \<or> ((opt_code opts = None \<or> opt_code opts = Some 0
                      \<or> (\<exists>c. opt_code opts = Some c \<and> map_of rs (string_of_number c) = None))
                    \<and> findDefaultStatusCodeMatch env rs = (status, sel))) \<longrightarrow>
              (sel = None \<longrightarrow>
                 mockResponseForOperation env b opId opts = Inr (status, defaultMock))
            \<and> (\<forall>resp. sel = Some resp \<and> content resp = None \<longrightarrow>
                 mockResponseForOperation env b opId opts = Inr (status, defaultMock))
            \<and> (\<forall>resp. sel = Some resp \<and> content resp = Some [] \<longrightarrow>
                 mockResponseForOperation env b opId opts = Inr (status, defaultMock))
            \<and> (\<forall>resp cont mt m.
                 sel = Some resp \<and> content resp = Some cont
                 \<and> (opt_mediaType opts = Some mt \<and> mt \<noteq> []
                     \<or> \<not> given (opt_mediaType opts) \<and> mt = ''application/json'')
                 \<and> (map_of cont mt = Some m
                     \<or> (map_of cont mt = None \<and> \<not> inherited mt
                         \<and> (\<exists>k ks. objectKeys cont = k # ks \<and> map_of cont k = Some m))) \<longrightarrow>
                   (examples m = None \<and> \<not> truthy (example m) \<and> \<not> truthy (schema m) \<longrightarrow>
                      mockResponseForOperation env b opId opts = Inr (status, defaultMock))
                 \<and> (\<not> (examples m = Some [] \<and> \<not> truthy (example m)) \<longrightarrow>
                      (\<exists>body. mockResponseForOperation env b opId opts = Inr (status, body)))))"
proof (intro conjI allI impI)
  assume "getOperation r opId = None"
  with assms show "mockResponseForOperation env b opId opts = Inr (200, defaultMock)"
    by (simp add: mockResponseForOperation_def selectMedia_def)
next
  fix opn assume "getOperation r opId = Some opn \<and> responses opn = None"
  with assms show "mockResponseForOperation env b opId opts = Inr (200, defaultMock)"
    by (simp add: mockResponseForOperation_def selectMedia_def)
next
  fix opn rs status sel
  assume a: "getOperation r opId = Some opn \<and> responses opn = Some rs
            \<and> ((\<exists>c resp. opt_code opts = Some c \<and> c \<noteq> 0
                       \<and> map_of rs (string_of_number c) = Some resp
                       \<and> status = c \<and> sel = Some resp)
                \<or> ((opt_code opts = None \<or> opt_code opts = Some 0
                      \<or> (\<exists>c. opt_code opts = Some c \<and> map_of rs (string_of_number c) = None))
                    \<and> findDefaultStatusCodeMatch env rs = (status, sel)))"
  then have g: "getOperation r opId = Some opn" and rs: "responses opn = Some rs"
    by simp_all
  have st: "resolveStatus env rs opts = (status, sel)"
    using a resolveStatus_declared [of opts status rs _ env] resolveStatus_default [of opts rs env]
    by auto
  {
    assume "sel = None"
    then show "mockResponseForOperation env b opId opts = Inr (status, defaultMock)"
      using mock_unresolved [OF assms selectMedia_no_content [OF g rs st]] by simp
  }
  {
    fix resp assume "sel = Some resp \<and> content resp = None"
    then show "mockResponseForOperation env b opId opts = Inr (status, defaultMock)"
      using mock_unresolved [OF assms selectMedia_no_content [OF g rs st]] by simp
  }
  {
    fix resp assume e: "sel = Some resp \<and> content resp = Some []"
    then have "selectMedia env r opId opts = (status, resolveMedia [] opts)"
      using selectMedia_content [OF g rs, of env opts status resp "[]"] st by simp
    with resolveMedia_empty [of opts] assms
    show "mockResponseForOperation env b opId opts = Inr (status, defaultMock)"
      by (auto simp: mock_unresolved mock_resolved pickMock_bare memberEntry_def)
  }
  fix resp cont mt m
  assume p: "sel = Some resp \<and> content resp = Some cont
             \<and> (opt_mediaType opts = Some mt \<and> mt \<noteq> []
                 \<or> \<not> given (opt_mediaType opts) \<and> mt = ''application/json'')
             \<and> (map_of cont mt = Some m
                 \<or> (map_of cont mt = None \<and> \<not> inherited mt
                     \<and> (\<exists>k ks. objectKeys cont = k # ks \<and> map_of cont k = Some m)))"
  then have "mt = (if given (opt_mediaType opts) then the (opt_mediaType opts)
                   else ''application/json'')"
    by auto
  with p have "resolveMedia cont opts = Some m"
    using resolveMedia_reached [of mt opts cont m] by blast
  then have "selectMedia env r opId opts = (status, Some m)"
    using selectMedia_content [OF g rs, of env opts status resp cont] st p by simp
  then have run: "mockResponseForOperation env b opId opts = pickMock env status m opts"
    using assms by (simp add: mock_resolved)
  {
    assume "examples m = None \<and> \<not> truthy (example m) \<and> \<not> truthy (schema m)"
    then show "mockResponseForOperation env b opId opts = Inr (status, defaultMock)"
      by (simp add: run pickMock_bare)
  }
  {
    assume "\<not> (examples m = Some [] \<and> \<not> truthy (example m))"
    then show "\<exists>body. mockResponseForOperation env b opId opts = Inr (status, body)"
      unfolding run by (rule pickMock_total)
  }
qed

text \<open>
  C5, as the code has it. With the media type entry \<open>m\<close> resolved: the value of the
  example the option names, when it is truthy; else, when the option names no example
  with a value, the truthy inline example; else, with no inline example, the first
  named example in the order of \<^verbatim>\<open>Object.keys\<close> whenever the entry has named
  examples, whether or not one was asked for (the first declared one when no name is an
  array index); else the value synthesised from the schema; else the empty object.
\<close>

theorem mock_priority:
  assumes "router b = Some r" and "selectMedia env r opId opts = (status, Some m)"
  shows "(\<forall>name exs eo.
            opt_example opts = Some name \<and> name \<noteq> [] \<and> examples m = Some exs
            \<and> map_of exs name = Some eo \<and> truthy (evalue eo) \<longrightarrow>
            mockResponseForOperation env b opId opts = Inr (status, evalue eo))
       \<and> ((\<forall>name exs eo.
              opt_example opts = Some name \<and> name \<noteq> [] \<and> examples m = Some exs
              \<and> map_of exs name = Some eo \<longrightarrow> evalue eo = JUndefined) \<longrightarrow>
            (truthy (example m) \<longrightarrow>
               mockResponseForOperation env b opId opts = Inr (status, example m))
          \<and> (example m = JUndefined \<longrightarrow>
               (\<forall>exs k ks eo. examples m = Some exs \<and> objectKeys exs = k # ks
                    \<and> map_of exs k = Some eo \<longrightarrow>
                  mockResponseForOperation env b opId opts = Inr (status, evalue eo))
             \<and> (\<forall>k eo rest. examples m = Some ((k, eo) # rest)
                    \<and> filter is_index (map fst ((k, eo) # rest)) = [] \<longrightarrow>
                  mockResponseForOperation env b opId opts = Inr (status, evalue eo))
             \<and> (examples m = None \<and> truthy (schema m) \<longrightarrow>
                  mockResponseForOperation env b opId opts = Inr (status, mock env (schema m)))
             \<and> (examples m = None \<and> \<not> truthy (schema m) \<longrightarrow>
                  mockResponseForOperation env b opId opts = Inr (status, defaultMock))))"
proof -
  have run: "mockResponseForOperation env b opId opts = pickMock env status m opts"
    using assms by (rule mock_resolved)
  have named: "pickMock env status m opts = Inr (status, evalue eo)"
    if "opt_example opts = Some name" and "name \<noteq> []" and "examples m = Some exs"
      and "map_of exs name = Some eo" and "truthy (evalue eo)" for name exs eo
    using that by (simp add: pickMock_def namedExample_def getProperty_own)
  have later: "pickMock env status m opts = unnamedMock env status m"
    if n: "\<forall>name exs eo. opt_example opts = Some name \<and> name \<noteq> [] \<and> examples m = Some exs
              \<and> map_of exs name = Some eo \<longrightarrow> evalue eo = JUndefined"
  proof (cases "namedExample m opts")
    case None
    then show ?thesis by (simp add: pickMock_def)
  next
    case (Some eo)
    then have "evalue eo = JUndefined"
      using n
      by (cases "opt_example opts"; cases "examples m")
         (auto simp: namedExample_def getProperty_def split: option.splits if_splits)
    with Some show ?thesis by (simp add: pickMock_def)
  qed
  have inline: "unnamedMock env status m = Inr (status, example m)" if "truthy (example m)"
    using that by (simp add: unnamedMock_def)
  have first: "unnamedMock env status m = Inr (status, evalue eo)"
    if "example m = JUndefined" and "examples m = Some exs" and "objectKeys exs = k # ks"
      and "map_of exs k = Some eo" for exs k ks eo
    using that by (simp add: unnamedMock_def)
  have declared: "unnamedMock env status m = Inr (status, evalue eo)"
    if u: "example m = JUndefined" and e: "examples m = Some ((k, eo) # rest)"
      and p: "filter is_index (map fst ((k, eo) # rest)) = []" for k eo rest
    using first [OF u e, of k "map fst rest" eo] objectKeys_plain [OF p] by simp
  have synth: "unnamedMock env status m = Inr (status, mock env (schema m))"
    if "example m = JUndefined" and "examples m = None" and "truthy (schema m)"
    using that by (simp add: unnamedMock_def)
  have dflt: "unnamedMock env status m = Inr (status, defaultMock)"
    if "example m = JUndefined" and "examples m = None" and "\<not> truthy (schema m)"
    using that by (simp add: unnamedMock_def)
  show ?thesis
  proof (intro conjI allI impI)
    fix name exs eo
    assume "opt_example opts = Some name \<and> name \<noteq> [] \<and> examples m = Some exs
            \<and> map_of exs name = Some eo \<and> truthy (evalue eo)"
    then show "mockResponseForOperation env b opId opts = Inr (status, evalue eo)"
      using named [of name exs eo] by (simp add: run)
  next
    assume n: "\<forall>name exs eo. opt_example opts = Some name \<and> name \<noteq> [] \<and> examples m = Some exs
              \<and> map_of exs name = Some eo \<longrightarrow> evalue eo = JUndefined"
    {
      assume "truthy (example m)"
      then show "mockResponseForOperation env b opId opts = Inr (status, example m)"
        by (simp add: run later [OF n] inline)
    }
    assume u: "example m = JUndefined"
    {
      fix exs k ks eo
      assume "examples m = Some exs \<and> objectKeys exs = k # ks \<and> map_of exs k = Some eo"
      then show "mockResponseForOperation env b opId opts = Inr (status, evalue eo)"
        using first [OF u, of exs k ks eo] by (simp add: run later [OF n])
    }
    {
      fix k eo rest
      assume "examples m = Some ((k, eo) # rest)
              \<and> filter is_index (map fst ((k, eo) # rest)) = []"
      then show "mockResponseForOperation env b opId opts = Inr (status, evalue eo)"
        using declared [OF u, of k eo rest] by (simp add: run later [OF n])
    }
    {
      assume "examples m = None \<and> truthy (schema m)"
      then show "mockResponseForOperation env b opId opts = Inr (status, mock env (schema m))"
        by (simp add: run later [OF n] synth [OF u])
    }
    {
      assume "examples m = None \<and> \<not> truthy (schema m)"
      then show "mockResponseForOperation env b opId opts = Inr (status, defaultMock)"
        by (simp add: run later [OF n] dflt [OF u])
    }
  qed
qed

text \<open>
  C6, as the code has it. The media type looked up in the content map is the
  \<^verbatim>\<open>mediaType\<close> option when given, and \<^verbatim>\<open>application/json\<close> when not; when the
  content map declares it, its entry is used; when it does not, and it does not name an
  inherited member either, the entry of the first key of the content map in the order of
  \<^verbatim>\<open>Object.keys\<close> is used, which is the first declared media type when no key is an
  array index, and the empty object is returned when the content map is empty.
\<close>

theorem media_type_resolution:
  assumes "router b = Some r" and "getOperation r opId = Some opn" and "responses opn = Some rs"
    and "resolveStatus env rs opts = (status, Some resp)" and "content resp = Some cont"
  shows "(\<forall>mt m. opt_mediaType opts = Some mt \<and> mt \<noteq> [] \<and> map_of cont mt = Some m \<longrightarrow>
            mockResponseForOperation env b opId opts = pickMock env status m opts)
       \<and> (\<forall>m. \<not> given (opt_mediaType opts) \<and> map_of cont ''application/json'' = Some m \<longrightarrow>
            mockResponseForOperation env b opId opts = pickMock env status m opts)
       \<and> (\<forall>mt. (opt_mediaType opts = Some mt \<and> mt \<noteq> []
                  \<or> \<not> given (opt_mediaType opts) \<and> mt = ''application/json'')
               \<and> map_of cont mt = None \<and> \<not> inherited mt \<longrightarrow>
              (\<forall>k m rest. cont = (k, m) # rest \<and> filter is_index (map fst cont) = [] \<longrightarrow>
                 mockResponseForOperation env b opId opts = pickMock env status m opts)
            \<and> (\<forall>k ks m. objectKeys cont = k # ks \<and> map_of cont k = Some m \<longrightarrow>
                 mockResponseForOperation env b opId opts = pickMock env status m opts)
            \<and> (cont = [] \<longrightarrow>
                 mockResponseForOperation env b opId opts = Inr (status, defaultMock)))"
proof -
  have sel: "selectMedia env r opId opts = (status, resolveMedia cont opts)"
    using assms(2-5) by (rule selectMedia_content)
  have hit: "mockResponseForOperation env b opId opts = pickMock env status m opts"
    if "resolveMedia cont opts = Some m" for m
    using assms(1) sel that by (simp add: mock_resolved)
  have name: "mt = (if given (opt_mediaType opts) then the (opt_mediaType opts) else ''application/json'')"
    if "opt_mediaType opts = Some mt \<and> mt \<noteq> []
        \<or> \<not> given (opt_mediaType opts) \<and> mt = ''application/json''" for mt
    using that by auto
  have a: "resolveMedia cont opts = Some m"
    if "opt_mediaType opts = Some mt" and "mt \<noteq> []" and "map_of cont mt = Some m" for mt m
    using that resolveMedia_reached [of mt opts cont m] by simp
  have b: "resolveMedia cont opts = Some m"
    if "\<not> given (opt_mediaType opts)" and "map_of cont ''application/json'' = Some m" for m
    using that resolveMedia_reached [of "''application/json''" opts cont m] by simp
  have c: "resolveMedia cont opts = Some m"
    if "opt_mediaType opts = Some mt \<and> mt \<noteq> []
        \<or> \<not> given (opt_mediaType opts) \<and> mt = ''application/json''"
      and "map_of cont mt = None" and "\<not> inherited mt"
      and "objectKeys cont = k # ks" and "map_of cont k = Some m" for mt k ks m
    using that(2-5) resolveMedia_reached [OF name [OF that(1)], of cont m] by blast
  have c': "resolveMedia cont opts = Some m"
    if n: "opt_mediaType opts = Some mt \<and> mt \<noteq> []
        \<or> \<not> given (opt_mediaType opts) \<and> mt = ''application/json''"
      and u: "map_of cont mt = None" "\<not> inherited mt"
      and s: "cont = (k, m) # rest" and p: "filter is_index (map fst cont) = []" for mt k m rest
    using c [OF n u, of k "map fst rest" m] objectKeys_plain [OF p] s by simp
  have d: "mockResponseForOperation env b opId opts = Inr (status, defaultMock)"
    if n: "opt_mediaType opts = Some mt \<and> mt \<noteq> []
        \<or> \<not> given (opt_mediaType opts) \<and> mt = ''application/json''"
      and u: "\<not> inherited mt" and e: "cont = []" for mt
  proof -
    have "resolveMedia cont opts = None"
      using name [OF n] u e
      by (simp add: resolveMedia_def mediaTypeOf_def getProperty_def objectKeys_def)
    with assms(1) sel show ?thesis by (simp add: mock_unresolved)
  qed
  show ?thesis
    using hit a b c c' d by blast
qed

section \<open>The mock selector on the pet store\<close>

lemmas mock_defs = mockResponseForOperation_def selectMedia_def resolveStatus_def resolveMedia_def
  mediaTypeOf_def pickMock_def namedExample_def unnamedMock_def defaultMock_def memberEntry_def
  getProperty_def inherited_def objectPrototype_def object_defs
  string_of_number_def string_of_nat.simps

lemmas store_defs = petEnv_def petRouter_def petBackend_def newBackend_def getPetById_def
  onePet_def listPets_def countPets_def deletePet_def headPets_def pingPets_def barePets_def
  rankPets_def numberedPets_def purgePets_def tallyPets_def tallyEntry_def
  petsContent_def plainPets_def jsonPets_def noOpts_def asXml_def asText_def askOne_def
  askMissing_def askNone_def code404_def code500_def code0_def asConstructor_def

lemma mock_empty_examples_throws:
  "mockResponseForOperation petEnv (petBackend []) ''countPets'' noOpts
   = Inl (TypeError ''cannot read property value of undefined'')"
  by (simp add: mock_defs store_defs)

lemma mock_empty_examples_inline:
  "mockResponseForOperation petEnv (petBackend []) ''tallyPets'' noOpts = Inr (200, JNum 3)"
  by (simp add: mock_defs store_defs)

lemma mock_before_init_throws:
  "mockResponseForOperation petEnv (newBackend []) ''getPetById'' noOpts
   = Inl (TypeError ''cannot read property getOperation of undefined'')"
  by (simp add: mock_defs store_defs)

text \<open>
  A media type or an example asked for under the name of an inherited member is found:
  the member has no example, no examples and no schema, and no \<^verbatim>\<open>value\<close>.
\<close>

lemma mock_inherited_media_type:
  "map_of petsContent ''constructor'' = None
   \<and> mockResponseForOperation petEnv (petBackend []) ''listPets'' asConstructor
       = Inr (200, JObj [])"
  by (simp add: mock_defs store_defs)

lemma mock_inherited_example:
  "mockResponseForOperation petEnv (petBackend []) ''listPets''
     (noOpts\<lparr>opt_example := Some ''toString''\<rparr>) = Inr (200, JArr [JStr ''Rex''])"
  by (simp add: mock_defs store_defs)

lemma pets_selected:
  "selectMedia petEnv petRouter ''nope'' noOpts = (200, None)"
  "selectMedia petEnv petRouter ''getPetById'' code404 = (404, None)"
  "selectMedia petEnv petRouter ''getPetById'' noOpts = (200, Some onePet)"
  "selectMedia petEnv petRouter ''listPets'' noOpts = (200, Some jsonPets)"
  "selectMedia petEnv petRouter ''listPets'' askOne = (200, Some jsonPets)"
  "selectMedia petEnv petRouter ''listPets'' askMissing = (200, Some jsonPets)"
  "selectMedia petEnv petRouter ''listPets'' asText = (200, Some plainPets)"
  "selectMedia petEnv petRouter ''listPets'' asXml = (200, Some plainPets)"
  "selectMedia petEnv petRouter ''pingPets'' noOpts = (200, Some barePets)"
  "selectMedia petEnv petRouter ''listPets'' askNone = (200, Some jsonPets)"
  "selectMedia petEnv petRouter ''rankPets'' noOpts = (200, Some numberedPets)"
  "selectMedia petEnv petRouter ''getPetById'' code500 = (200, Some onePet)"
  by (simp_all add: mock_defs petEnv_def petRouter_def getPetById_def listPets_def pingPets_def
      rankPets_def petsContent_def noOpts_def asXml_def asText_def askOne_def askMissing_def
      askNone_def code404_def code500_def)

lemma pets_keys:
  "objectKeys petsContent = [''text/plain'', ''application/json'']"
  "objectKeys [(''one'', \<lparr>evalue = JArr [JStr ''Rex'']\<rparr>), (''none'', \<lparr>evalue = JArr []\<rparr>)]
   = [''one'', ''none'']"
  "objectKeys [(''latest'', \<lparr>evalue = JStr ''Rex''\<rparr>), (''10'', \<lparr>evalue = JStr ''Tom''\<rparr>),
               (''2'', \<lparr>evalue = JStr ''Bob''\<rparr>)] = [''2'', ''10'', ''latest'']"
  by (simp_all add: object_defs petsContent_def)

theorem mock_fallback_witness:
  "router (petBackend []) = Some petRouter
   \<and> getOperation petRouter ''nope'' = None
   \<and> mockResponseForOperation petEnv (petBackend []) ''nope'' noOpts = Inr (200, defaultMock)
   \<and> getOperation petRouter ''deletePet'' = Some deletePet \<and> responses deletePet = None
   \<and> mockResponseForOperation petEnv (petBackend []) ''deletePet'' noOpts = Inr (200, defaultMock)
   \<and> getOperation petRouter ''getPetById'' = Some getPetById
   \<and> responses getPetById
       = Some [(''200'', \<lparr>content = Some [(''application/json'', onePet)]\<rparr>),
               (''404'', \<lparr>content = None\<rparr>)]
   \<and> opt_code code404 = Some 404
   \<and> mockResponseForOperation petEnv (petBackend []) ''getPetById'' code404 = Inr (404, defaultMock)
   \<and> opt_code code500 = Some 500
   \<and> (\<exists>body. mockResponseForOperation petEnv (petBackend []) ''getPetById'' code500
               = Inr (200, body))
   \<and> opt_code code0 = Some 0
   \<and> (\<exists>body. mockResponseForOperation petEnv (petBackend []) ''getPetById'' code0
               = Inr (200, body))
   \<and> getOperation petRouter ''purgePets'' = Some purgePets
   \<and> responses purgePets = Some [(''204'', \<lparr>content = None\<rparr>)]
   \<and> mockResponseForOperation petEnv (petBackend []) ''purgePets'' noOpts = Inr (200, defaultMock)
   \<and> getOperation petRouter ''headPets'' = Some headPets
   \<and> responses headPets = Some [(''200'', \<lparr>content = Some []\<rparr>)]
   \<and> mockResponseForOperation petEnv (petBackend []) ''headPets'' noOpts = Inr (200, defaultMock)
   \<and> getOperation petRouter ''pingPets'' = Some pingPets
   \<and> responses pingPets = Some [(''200'', \<lparr>content = Some [(''application/json'', barePets)]\<rparr>)]
   \<and> examples barePets = None \<and> \<not> truthy (example barePets) \<and> \<not> truthy (schema barePets)
   \<and> mockResponseForOperation petEnv (petBackend []) ''pingPets'' noOpts = Inr (200, defaultMock)
   \<and> getOperation petRouter ''tallyPets'' = Some tallyPets
   \<and> responses tallyPets = Some [(''200'', \<lparr>content = Some [(''application/json'', tallyEntry)]\<rparr>)]
   \<and> examples tallyEntry = Some [] \<and> truthy (example tallyEntry)
   \<and> (\<exists>body. mockResponseForOperation petEnv (petBackend []) ''tallyPets'' noOpts
               = Inr (200, body))
   \<and> getOperation petRouter ''listPets'' = Some listPets
   \<and> responses listPets = Some [(''200'', \<lparr>content = Some petsContent\<rparr>)]
   \<and> opt_mediaType asXml = Some ''text/xml''
   \<and> map_of petsContent ''text/xml'' = None \<and> \<not> inherited ''text/xml''
   \<and> objectKeys petsContent = [''text/plain'', ''application/json'']
   \<and> (\<exists>body. mockResponseForOperation petEnv (petBackend []) ''listPets'' asXml
               = Inr (200, body))"
proof -
  let ?R = "mockResponseForOperation petEnv (petBackend [])"
  let ?G = "[(''200'', \<lparr>content = Some [(''application/json'', onePet)]\<rparr>),
             (''404'', \<lparr>content = None\<rparr>)]"
  note t = mock_fallback [of "petBackend []" petRouter _ petEnv]
  have r: "router (petBackend []) = Some petRouter"
    by (simp add: petBackend_def)
  have n: "getOperation petRouter ''nope'' = None"
    and dl: "getOperation petRouter ''deletePet'' = Some deletePet" "responses deletePet = None"
    and gp: "getOperation petRouter ''getPetById'' = Some getPetById" "responses getPetById = Some ?G"
    and pu: "getOperation petRouter ''purgePets'' = Some purgePets"
      "responses purgePets = Some [(''204'', \<lparr>content = None\<rparr>)]"
    and hd: "getOperation petRouter ''headPets'' = Some headPets"
      "responses headPets = Some [(''200'', \<lparr>content = Some []\<rparr>)]"
    and pg: "getOperation petRouter ''pingPets'' = Some pingPets"
      "responses pingPets = Some [(''200'', \<lparr>content = Some [(''application/json'', barePets)]\<rparr>)]"
    and ty: "getOperation petRouter ''tallyPets'' = Some tallyPets"
      "responses tallyPets = Some [(''200'', \<lparr>content = Some [(''application/json'', tallyEntry)]\<rparr>)]"
    and ls: "getOperation petRouter ''listPets'' = Some listPets"
      "responses listPets = Some [(''200'', \<lparr>content = Some petsContent\<rparr>)]"
    by (simp_all add: petRouter_def deletePet_def getPetById_def purgePets_def headPets_def
        pingPets_def tallyPets_def listPets_def)
  have oc: "opt_code code404 = Some 404" "opt_code code500 = Some 500" "opt_code code0 = Some 0"
      "opt_code noOpts = None" "opt_code asXml = None" "(404 :: int) \<noteq> 0"
    and om: "\<not> given (opt_mediaType noOpts)" "\<not> given (opt_mediaType code500)"
      "\<not> given (opt_mediaType code0)" "''text/xml'' \<noteq> []"
      "opt_mediaType asXml = Some ''text/xml''"
    by (simp_all add: code404_def code500_def code0_def noOpts_def asXml_def)
  have e: "examples barePets = None" "\<not> truthy (example barePets)" "\<not> truthy (schema barePets)"
      "examples tallyEntry = Some []" "truthy (example tallyEntry)"
      "\<not> (examples onePet = Some [] \<and> \<not> truthy (example onePet))"
      "\<not> (examples tallyEntry = Some [] \<and> \<not> truthy (example tallyEntry))"
      "\<not> (examples plainPets = Some [] \<and> \<not> truthy (example plainPets))"
    by (simp_all add: barePets_def tallyEntry_def onePet_def plainPets_def)
  have k: "map_of ?G (string_of_number 404) = Some \<lparr>content = None\<rparr>"
      "map_of ?G (string_of_number 500) = None"
    by (simp_all add: string_of_number_def string_of_nat.simps)
  have fd: "findDefaultStatusCodeMatch petEnv ?G
            = (200, Some \<lparr>content = Some [(''application/json'', onePet)]\<rparr>)"
      "findDefaultStatusCodeMatch petEnv [(''204'', \<lparr>content = None\<rparr>)] = (200, None)"
      "findDefaultStatusCodeMatch petEnv [(''200'', \<lparr>content = Some []\<rparr>)]
       = (200, Some \<lparr>content = Some []\<rparr>)"
      "findDefaultStatusCodeMatch petEnv [(''200'', \<lparr>content = Some [(''application/json'', barePets)]\<rparr>)]
       = (200, Some \<lparr>content = Some [(''application/json'', barePets)]\<rparr>)"
      "findDefaultStatusCodeMatch petEnv [(''200'', \<lparr>content = Some [(''application/json'', tallyEntry)]\<rparr>)]
       = (200, Some \<lparr>content = Some [(''application/json'', tallyEntry)]\<rparr>)"
      "findDefaultStatusCodeMatch petEnv [(''200'', \<lparr>content = Some petsContent\<rparr>)]
       = (200, Some \<lparr>content = Some petsContent\<rparr>)"
    by (simp_all add: petEnv_def)
  have c: "content \<lparr>content = None\<rparr> = None"
      "content \<lparr>content = Some []\<rparr> = Some []"
      "content \<lparr>content = Some [(''application/json'', onePet)]\<rparr> = Some [(''application/json'', onePet)]"
      "content \<lparr>content = Some [(''application/json'', barePets)]\<rparr> = Some [(''application/json'', barePets)]"
      "content \<lparr>content = Some [(''application/json'', tallyEntry)]\<rparr> = Some [(''application/json'', tallyEntry)]"
      "content \<lparr>content = Some petsContent\<rparr> = Some petsContent"
    by simp_all
  have m: "map_of [(''application/json'', onePet)] ''application/json'' = Some onePet"
      "map_of [(''application/json'', barePets)] ''application/json'' = Some barePets"
      "map_of [(''application/json'', tallyEntry)] ''application/json'' = Some tallyEntry"
      "map_of petsContent ''text/xml'' = None" "map_of petsContent ''text/plain'' = Some plainPets"
      "\<not> inherited ''text/xml''"
    by (simp_all add: petsContent_def inherited_def objectPrototype_def)
  note t1 = t [OF r, THEN conjunct1, rule_format]
  note t2 = t [OF r, THEN conjunct2, THEN conjunct1, rule_format]
  note t3 = t [OF r, THEN conjunct2, THEN conjunct2, rule_format]
  have a1: "?R ''nope'' noOpts = Inr (200, defaultMock)"
    using n by (rule t1)
  have a2: "?R ''deletePet'' noOpts = Inr (200, defaultMock)"
    using t2 [of "''deletePet''" deletePet noOpts] dl by blast
  have a3: "?R ''getPetById'' code404 = Inr (404, defaultMock)"
    using t3 [where opId = "''getPetById''" and opts = code404 and opn = getPetById and rs = ?G
        and status = 404 and sel = "Some \<lparr>content = None\<rparr>"]
      gp oc(1,6) k(1) c(1) by blast
  have a4: "\<exists>body. ?R ''getPetById'' code500 = Inr (200, body)"
    using t3 [where opId = "''getPetById''" and opts = code500 and opn = getPetById and rs = ?G
        and status = 200
        and sel = "Some \<lparr>content = Some [(''application/json'', onePet)]\<rparr>"]
      gp oc(2) k(2) fd(1) c(3) om(2) m(1) e(6) by blast
  have a5: "\<exists>body. ?R ''getPetById'' code0 = Inr (200, body)"
    using t3 [where opId = "''getPetById''" and opts = code0 and opn = getPetById and rs = ?G
        and status = 200
        and sel = "Some \<lparr>content = Some [(''application/json'', onePet)]\<rparr>"]
      gp oc(3) fd(1) c(3) om(3) m(1) e(6) by blast
  have a6: "?R ''purgePets'' noOpts = Inr (200, defaultMock)"
    using t3 [where opId = "''purgePets''" and opts = noOpts and opn = purgePets
        and rs = "[(''204'', \<lparr>content = None\<rparr>)]" and status = 200 and sel = None]
      pu oc(4) fd(2) by blast
  have a7: "?R ''headPets'' noOpts = Inr (200, defaultMock)"
    using t3 [where opId = "''headPets''" and opts = noOpts and opn = headPets
        and rs = "[(''200'', \<lparr>content = Some []\<rparr>)]" and status = 200
        and sel = "Some \<lparr>content = Some []\<rparr>"]
      hd oc(4) fd(3) c(2) by blast
  have a8: "?R ''pingPets'' noOpts = Inr (200, defaultMock)"
    using t3 [where opId = "''pingPets''" and opts = noOpts and opn = pingPets
        and rs = "[(''200'', \<lparr>content = Some [(''application/json'', barePets)]\<rparr>)]"
        and status = 200
        and sel = "Some \<lparr>content = Some [(''application/json'', barePets)]\<rparr>"]
      pg oc(4) fd(4) c(4) om(1) m(2) e(1-3) by blast
  have a9: "\<exists>body. ?R ''tallyPets'' noOpts = Inr (200, body)"
    using t3 [where opId = "''tallyPets''" and opts = noOpts and opn = tallyPets
        and rs = "[(''200'', \<lparr>content = Some [(''application/json'', tallyEntry)]\<rparr>)]"
        and status = 200
        and sel = "Some \<lparr>content = Some [(''application/json'', tallyEntry)]\<rparr>"]
      ty oc(4) fd(5) c(5) om(1) m(3) e(7) by blast
  have a10: "\<exists>body. ?R ''listPets'' asXml = Inr (200, body)"
    using t3 [where opId = "''listPets''" and opts = asXml and opn = listPets
        and rs = "[(''200'', \<lparr>content = Some petsContent\<rparr>)]" and status = 200
        and sel = "Some \<lparr>content = Some petsContent\<rparr>"]
      ls oc(5) fd(6) c(6) om(4,5) m(4-6) pets_keys(1) e(8)
    by blast
  show ?thesis
    by (intro conjI)
       (rule r n dl gp pu hd pg ty ls oc(1-3) om(5) e(1-5) m(4,6) pets_keys(1)
          a1 a2 a3 a4 a5 a6 a7 a8 a9 a10)+
qed

text \<open>
  C4 as stated fails on a response without content that the \<^verbatim>\<open>code\<close> option selects:
  the status returned is that code, not 200.
\<close>

theorem mock_fallback_counterexample:
  "getOperation petRouter ''getPetById'' = Some getPetById
   \<and> opt_code code404 = Some 404
   \<and> map_of (the (responses getPetById)) ''404'' = Some \<lparr>content = None\<rparr>
   \<and> mockResponseForOperation petEnv (petBackend []) ''getPetById'' code404 = Inr (404, JObj [])"
  by (simp add: mock_defs store_defs)

theorem mock_priority_witness:
  "router (petBackend []) = Some petRouter
   \<and> selectMedia petEnv petRouter ''listPets'' askNone = (200, Some jsonPets)
   \<and> opt_example askNone = Some ''none''
   \<and> examples jsonPets = Some [(''one'', \<lparr>evalue = JArr [JStr ''Rex'']\<rparr>),
                                (''none'', \<lparr>evalue = JArr []\<rparr>)]
   \<and> mockResponseForOperation petEnv (petBackend []) ''listPets'' askNone = Inr (200, JArr [])
   \<and> selectMedia petEnv petRouter ''listPets'' asText = (200, Some plainPets)
   \<and> opt_example asText = None
   \<and> example plainPets = JStr ''Rex, Tom''
   \<and> mockResponseForOperation petEnv (petBackend []) ''listPets'' asText = Inr (200, JStr ''Rex, Tom'')
   \<and> selectMedia petEnv petRouter ''listPets'' askMissing = (200, Some jsonPets)
   \<and> opt_example askMissing = Some ''missing''
   \<and> example jsonPets = JUndefined
   \<and> mockResponseForOperation petEnv (petBackend []) ''listPets'' askMissing
       = Inr (200, JArr [JStr ''Rex''])
   \<and> selectMedia petEnv petRouter ''rankPets'' noOpts = (200, Some numberedPets)
   \<and> opt_example noOpts = None
   \<and> example numberedPets = JUndefined
   \<and> examples numberedPets = Some [(''latest'', \<lparr>evalue = JStr ''Rex''\<rparr>),
                                    (''10'', \<lparr>evalue = JStr ''Tom''\<rparr>),
                                    (''2'', \<lparr>evalue = JStr ''Bob''\<rparr>)]
   \<and> mockResponseForOperation petEnv (petBackend []) ''rankPets'' noOpts = Inr (200, JStr ''Bob'')
   \<and> selectMedia petEnv petRouter ''listPets'' noOpts = (200, Some jsonPets)
   \<and> filter is_index [''one'', ''none''] = []
   \<and> mockResponseForOperation petEnv (petBackend []) ''listPets'' noOpts
       = Inr (200, JArr [JStr ''Rex''])
   \<and> selectMedia petEnv petRouter ''getPetById'' noOpts = (200, Some onePet)
   \<and> example onePet = JUndefined \<and> examples onePet = None \<and> truthy (schema onePet)
   \<and> mockResponseForOperation petEnv (petBackend []) ''getPetById'' noOpts
       = Inr (200, mock petEnv (schema onePet))
   \<and> selectMedia petEnv petRouter ''pingPets'' noOpts = (200, Some barePets)
   \<and> example barePets = JUndefined \<and> examples barePets = None \<and> \<not> truthy (schema barePets)
   \<and> mockResponseForOperation petEnv (petBackend []) ''pingPets'' noOpts = Inr (200, defaultMock)"
proof -
  let ?R = "mockResponseForOperation petEnv (petBackend [])"
  let ?J = "[(''one'', \<lparr>evalue = JArr [JStr ''Rex'']\<rparr>), (''none'', \<lparr>evalue = JArr []\<rparr>)]"
  let ?N = "[(''latest'', \<lparr>evalue = JStr ''Rex''\<rparr>), (''10'', \<lparr>evalue = JStr ''Tom''\<rparr>),
             (''2'', \<lparr>evalue = JStr ''Bob''\<rparr>)]"
  have r: "router (petBackend []) = Some petRouter"
    by (simp add: petBackend_def)
  have oe: "opt_example askNone = Some ''none''" "''none'' \<noteq> []" "opt_example asText = None"
      "opt_example askMissing = Some ''missing''" "opt_example noOpts = None"
    by (simp_all add: askNone_def asText_def askMissing_def noOpts_def)
  have ex: "examples jsonPets = Some ?J" "example jsonPets = JUndefined"
      "example plainPets = JStr ''Rex, Tom''" "truthy (example plainPets)"
      "examples numberedPets = Some ?N" "example numberedPets = JUndefined"
      "example onePet = JUndefined" "examples onePet = None" "truthy (schema onePet)"
      "example barePets = JUndefined" "examples barePets = None" "\<not> truthy (schema barePets)"
    by (simp_all add: jsonPets_def plainPets_def numberedPets_def onePet_def barePets_def)
  have look: "map_of ?J ''none'' = Some \<lparr>evalue = JArr []\<rparr>"
      "truthy (evalue \<lparr>evalue = JArr []\<rparr>)" "evalue \<lparr>evalue = JArr []\<rparr> = JArr []"
      "map_of ?J ''one'' = Some \<lparr>evalue = JArr [JStr ''Rex'']\<rparr>"
      "evalue \<lparr>evalue = JArr [JStr ''Rex'']\<rparr> = JArr [JStr ''Rex'']"
      "map_of ?N ''2'' = Some \<lparr>evalue = JStr ''Bob''\<rparr>"
      "evalue \<lparr>evalue = JStr ''Bob''\<rparr> = JStr ''Bob''"
      "filter is_index (map fst ?J) = []" "filter is_index [''one'', ''none''] = []"
    by (simp_all add: object_defs)
  have none: "\<forall>name exs eo. opt_example opts = Some name \<and> name \<noteq> [] \<and> examples m = Some exs
                \<and> map_of exs name = Some eo \<longrightarrow> evalue eo = JUndefined"
    if "opt_example opts = None" for opts and m :: media_type_object
    using that by simp
  have miss: "\<forall>name exs eo. opt_example askMissing = Some name \<and> name \<noteq> []
                \<and> examples jsonPets = Some exs \<and> map_of exs name = Some eo
                \<longrightarrow> evalue eo = JUndefined"
    by (simp add: askMissing_def noOpts_def jsonPets_def)
  have a0: "?R ''listPets'' askNone = Inr (200, evalue \<lparr>evalue = JArr []\<rparr>)"
    using mock_priority [OF r pets_selected(10), THEN conjunct1, rule_format,
        of "''none''" ?J "\<lparr>evalue = JArr []\<rparr>"] oe(1,2) ex(1) look(1,2) by blast
  have b0: "?R ''listPets'' asText = Inr (200, example plainPets)"
    using mock_priority [OF r pets_selected(7), THEN conjunct2, THEN mp,
        OF none [OF oe(3), of plainPets]] ex(4) by blast
  have c0: "?R ''listPets'' askMissing = Inr (200, evalue \<lparr>evalue = JArr [JStr ''Rex'']\<rparr>)"
    using mock_priority [OF r pets_selected(6), THEN conjunct2, THEN mp, OF miss]
      ex(1,2) pets_keys(2) look(4) by blast
  have d0: "?R ''rankPets'' noOpts = Inr (200, evalue \<lparr>evalue = JStr ''Bob''\<rparr>)"
    using mock_priority [OF r pets_selected(11), THEN conjunct2, THEN mp,
        OF none [OF oe(5), of numberedPets]] ex(5,6) pets_keys(3) look(6) by blast
  have e0: "?R ''listPets'' noOpts = Inr (200, evalue \<lparr>evalue = JArr [JStr ''Rex'']\<rparr>)"
    using mock_priority [OF r pets_selected(4), THEN conjunct2, THEN mp,
        OF none [OF oe(5), of jsonPets]] ex(1,2) look(8) by blast
  have f: "?R ''getPetById'' noOpts = Inr (200, mock petEnv (schema onePet))"
    using mock_priority [OF r pets_selected(3), THEN conjunct2, THEN mp,
        OF none [OF oe(5), of onePet]] ex(7-9) by blast
  have g: "?R ''pingPets'' noOpts = Inr (200, defaultMock)"
    using mock_priority [OF r pets_selected(9), THEN conjunct2, THEN mp,
        OF none [OF oe(5), of barePets]] ex(10-12) by blast
  have a: "?R ''listPets'' askNone = Inr (200, JArr [])"
    and b: "?R ''listPets'' asText = Inr (200, JStr ''Rex, Tom'')"
    and c: "?R ''listPets'' askMissing = Inr (200, JArr [JStr ''Rex''])"
    and d: "?R ''rankPets'' noOpts = Inr (200, JStr ''Bob'')"
    and e: "?R ''listPets'' noOpts = Inr (200, JArr [JStr ''Rex''])"
    by (simp_all add: a0 b0 c0 d0 e0 ex(3))
  show ?thesis
    by (intro conjI) (rule r pets_selected oe ex look(9) a b c d e f g)+
qed

text \<open>
  C5 as stated fails when the example asked for is not declared: there is no inline
  example and an example was requested, so the claim's chain ends at the schema, and the
  code returns the first named example.
\<close>

theorem mock_priority_counterexample:
  "selectMedia petEnv petRouter ''listPets'' askMissing = (200, Some jsonPets)
   \<and> opt_example askMissing = Some ''missing''
   \<and> map_of (the (examples jsonPets)) ''missing'' = None
   \<and> example jsonPets = JUndefined
   \<and> mock petEnv (schema jsonPets) = JObj [(''mocked'', JObj [(''type'', JStr ''array'')])]
   \<and> mockResponseForOperation petEnv (petBackend []) ''listPets'' askMissing
       = Inr (200, JArr [JStr ''Rex''])"
  by (simp add: mock_defs store_defs)

theorem media_type_resolution_witness:
  "router (petBackend []) = Some petRouter
   \<and> getOperation petRouter ''listPets'' = Some listPets
   \<and> responses listPets = Some [(''200'', \<lparr>content = Some petsContent\<rparr>)]
   \<and> petsContent = [(''text/plain'', plainPets), (''application/json'', jsonPets)]
   \<and> opt_mediaType asText = Some ''text/plain''
   \<and> mockResponseForOperation petEnv (petBackend []) ''listPets'' asText
       = pickMock petEnv 200 plainPets asText
   \<and> \<not> given (opt_mediaType noOpts)
   \<and> mockResponseForOperation petEnv (petBackend []) ''listPets'' noOpts
       = pickMock petEnv 200 jsonPets noOpts
   \<and> opt_mediaType asXml = Some ''text/xml''
   \<and> map_of petsContent ''text/xml'' = None \<and> \<not> inherited ''text/xml''
   \<and> filter is_index (map fst petsContent) = []
   \<and> objectKeys petsContent = [''text/plain'', ''application/json'']
   \<and> mockResponseForOperation petEnv (petBackend []) ''listPets'' asXml
       = pickMock petEnv 200 plainPets asXml
   \<and> getOperation petRouter ''headPets'' = Some headPets
   \<and> responses headPets = Some [(''200'', \<lparr>content = Some []\<rparr>)]
   \<and> \<not> inherited ''application/json''
   \<and> mockResponseForOperation petEnv (petBackend []) ''headPets'' noOpts = Inr (200, defaultMock)"
proof -
  have hg: "getOperation petRouter ''headPets'' = Some headPets"
    and hrs: "responses headPets = Some [(''200'', \<lparr>content = Some []\<rparr>)]"
    and hc: "content \<lparr>content = Some []\<rparr> = Some []"
    and hst: "resolveStatus petEnv [(''200'', \<lparr>content = Some []\<rparr>)] noOpts
              = (200, Some \<lparr>content = Some []\<rparr>)"
    and hno: "map_of ([] :: (string \<times> media_type_object) list) ''application/json'' = None"
      "\<not> inherited ''application/json''"
    by (simp_all add: petRouter_def headPets_def resolveStatus_def petEnv_def noOpts_def
        inherited_def objectPrototype_def)
  have r: "router (petBackend []) = Some petRouter"
    by (simp add: petBackend_def)
  have g: "getOperation petRouter ''listPets'' = Some listPets"
    and rs: "responses listPets = Some [(''200'', \<lparr>content = Some petsContent\<rparr>)]"
    and c: "content \<lparr>content = Some petsContent\<rparr> = Some petsContent"
    by (simp_all add: petRouter_def listPets_def)
  have st: "resolveStatus petEnv [(''200'', \<lparr>content = Some petsContent\<rparr>)] opts
            = (200, Some \<lparr>content = Some petsContent\<rparr>)"
    if "opt_code opts = None" for opts
    using that by (simp add: resolveStatus_def petEnv_def)
  have oc: "opt_code asText = None" "opt_code noOpts = None" "opt_code asXml = None"
    by (simp_all add: asText_def asXml_def noOpts_def)
  have mt: "opt_mediaType asText = Some ''text/plain''" "''text/plain'' \<noteq> []"
      "\<not> given (opt_mediaType noOpts)"
      "opt_mediaType asXml = Some ''text/xml''" "''text/xml'' \<noteq> []"
    and look: "map_of petsContent ''text/plain'' = Some plainPets"
      "map_of petsContent ''application/json'' = Some jsonPets"
      "map_of petsContent ''text/xml'' = None" "\<not> inherited ''text/xml''"
    and shape: "petsContent = (''text/plain'', plainPets) # [(''application/json'', jsonPets)]"
      "filter is_index (map fst petsContent) = []"
    by (simp_all add: asText_def asXml_def noOpts_def petsContent_def inherited_def
        objectPrototype_def object_defs)
  have a: "mockResponseForOperation petEnv (petBackend []) ''listPets'' asText
           = pickMock petEnv 200 plainPets asText"
    using media_type_resolution [OF r g rs st [OF oc(1)] c, THEN conjunct1, rule_format,
        of "''text/plain''" plainPets] mt(1,2) look(1) by blast
  have b: "mockResponseForOperation petEnv (petBackend []) ''listPets'' noOpts
           = pickMock petEnv 200 jsonPets noOpts"
    using media_type_resolution [OF r g rs st [OF oc(2)] c, THEN conjunct2, THEN conjunct1,
        rule_format, of jsonPets] mt(3) look(2) by blast
  have d: "mockResponseForOperation petEnv (petBackend []) ''listPets'' asXml
           = pickMock petEnv 200 plainPets asXml"
    using media_type_resolution [OF r g rs st [OF oc(3)] c, THEN conjunct2, THEN conjunct2,
        rule_format, of "''text/xml''"] mt(4,5) look(3,4) shape by blast
  have d': "mockResponseForOperation petEnv (petBackend []) ''listPets'' asXml
           = pickMock petEnv 200 plainPets asXml"
    using media_type_resolution [OF r g rs st [OF oc(3)] c, THEN conjunct2, THEN conjunct2,
        rule_format, of "''text/xml''"] mt(4,5) look(1,3,4) pets_keys(1) by blast
  have e: "mockResponseForOperation petEnv (petBackend []) ''headPets'' noOpts = Inr (200, defaultMock)"
    using media_type_resolution [OF r hg hrs hst hc, THEN conjunct2, THEN conjunct2,
        rule_format, of "''application/json''"] mt(3) hno by blast
  show ?thesis
    by (intro conjI)
       (rule r g rs petsContent_def mt look(3,4) shape(2) pets_keys(1) a b d hg hrs hno(2) e)+
qed

text \<open>
  C6 as stated fails when the option names a media type that is not declared while
  \<^verbatim>\<open>application/json\<close> is declared but not first: the first entry is used.
\<close>

theorem media_type_resolution_counterexample:
  "opt_mediaType asXml = Some ''text/xml''
   \<and> selectMedia petEnv petRouter ''listPets'' asXml = (200, Some plainPets)
   \<and> map_of petsContent ''text/xml'' = None
   \<and> map_of petsContent ''application/json'' = Some jsonPets
   \<and> mockResponseForOperation petEnv (petBackend []) ''listPets'' asXml = Inr (200, JStr ''Rex, Tom'')
   \<and> pickMock petEnv 200 jsonPets asXml = Inr (200, JArr [JStr ''Rex''])"
  by (simp add: mock_defs store_defs)

section \<open>Registration\<close>

lemma allowed_keys_accepted:
  assumes "is_function h" and "initalized b" and "router b = Some r"
    and "k \<in> set allowedHandlers"
  shows "registerHandler b k h = store b k h []"
  using assms by (simp add: registerHandler_def)

lemma alias_404_is_dispatched:
  "res (handleRequest petEnv (petBackend [(''404'', reply ''nf'')]) strayRequest []) = Inr (JStr ''nf'')
   \<and> calls_at NotFoundSite (log (handleRequest petEnv (petBackend [(''404'', reply ''nf'')]) strayRequest []))
       = [Call NotFoundSite ''404'' (Some (routedContext petRouter strayRequest)) []]"
  by (simp add: dispatch_defs pet_defs)

text \<open>
  C7 at the keys \<^verbatim>\<open>404\<close> and \<^verbatim>\<open>501\<close>, on the initialised pet store, which
  declares no operation of these names: strict mode refuses the registration, lenient
  mode warns. Both keys are missing from \<open>allowedHandlers\<close>, although
  \<^verbatim>\<open>handleRequest\<close> dispatches to them.
\<close>

theorem numeric_aliases_refused:
  "initalized strictPets \<and> strict strictPets \<and> \<not> strict (petBackend [])
   \<and> is_function (reply ''nf'')
   \<and> res (registerHandler strictPets ''404'' (reply ''nf''))
       = Inl (Error ''Unknown operationId 404. Refusing to register handler'')
   \<and> res (registerHandler strictPets ''501'' (reply ''nf''))
       = Inl (Error ''Unknown operationId 501. Refusing to register handler'')
   \<and> log (registerHandler (petBackend []) ''404'' (reply ''nf'')) = [Warn ''Unknown operationId 404'']
   \<and> log (registerHandler (petBackend []) ''501'' (reply ''nf'')) = [Warn ''Unknown operationId 501'']"
  by (simp add: registerHandler_def store_def allowedHandlers_def strictPets_def petBackend_def
      petRouter_def reply_def)

text \<open>
  C8, as the code has it. Anything that is not a function is refused at once, in every
  mode and state. A function under an id that no operation declares and that is not a
  reserved key is refused in strict mode and registered with a warning in lenient mode,
  on an initialised backend; before initialisation it is registered without a check.
\<close>

theorem registration_errors:
  "(\<not> is_function h \<longrightarrow>
      registerHandler b opId h
        = \<lparr>st = b, log = [], res = Inl (Error ''Handler should be a function'')\<rparr>)
   \<and> (is_function h \<and> initalized b \<and> router b = Some r \<and> getOperation r opId = None
        \<and> opId \<notin> {''notFound'', ''404'', ''notImplemented'', ''501'', ''validationFail'',
                     ''postResponseHandler''} \<longrightarrow>
        (strict b \<longrightarrow>
           registerHandler b opId h
             = \<lparr>st = b, log = [],
                res = Inl (Error (''Unknown operationId '' @ opId
                                  @ ''. Refusing to register handler''))\<rparr>)
      \<and> (\<not> strict b \<longrightarrow>
           res (registerHandler b opId h) = Inr ()
           \<and> log (registerHandler b opId h) = [Warn (''Unknown operationId '' @ opId)]
           \<and> handler_at (st (registerHandler b opId h)) opId = h))
   \<and> (is_function h \<and> \<not> initalized b \<longrightarrow>
        res (registerHandler b opId h) = Inr ()
        \<and> log (registerHandler b opId h) = []
        \<and> handler_at (st (registerHandler b opId h)) opId = h)"
proof (intro conjI impI)
  assume "\<not> is_function h"
  then show "registerHandler b opId h
             = \<lparr>st = b, log = [], res = Inl (Error ''Handler should be a function'')\<rparr>"
    by (simp add: registerHandler_def)
next
  assume a: "is_function h \<and> initalized b \<and> router b = Some r \<and> getOperation r opId = None
        \<and> opId \<notin> {''notFound'', ''404'', ''notImplemented'', ''501'', ''validationFail'',
                     ''postResponseHandler''}"
  then have u: "opId \<notin> set allowedHandlers"
    by (simp add: allowedHandlers_def)
  {
    assume "strict b"
    with a u show "registerHandler b opId h
             = \<lparr>st = b, log = [],
                res = Inl (Error (''Unknown operationId '' @ opId
                                  @ ''. Refusing to register handler''))\<rparr>"
      by (simp add: registerHandler_def)
  }
  assume "\<not> strict b"
  with a u have "registerHandler b opId h = store b opId h [Warn (''Unknown operationId '' @ opId)]"
    by (simp add: registerHandler_def)
  then show "res (registerHandler b opId h) = Inr ()"
    and "log (registerHandler b opId h) = [Warn (''Unknown operationId '' @ opId)]"
    and "handler_at (st (registerHandler b opId h)) opId = h"
    by (simp_all add: handler_at_store) (simp_all add: store_def)
next
  assume "is_function h \<and> \<not> initalized b"
  then have "registerHandler b opId h = store b opId h []"
    by (simp add: registerHandler_def)
  then show "res (registerHandler b opId h) = Inr ()"
    and "log (registerHandler b opId h) = []"
    and "handler_at (st (registerHandler b opId h)) opId = h"
    by (simp_all add: handler_at_store) (simp_all add: store_def)
qed

theorem registration_errors_witness:
  "\<not> is_function (NonFn (JStr ''not a function''))
   \<and> res (registerHandler strictNew ''getPetById'' (NonFn (JStr ''not a function'')))
       = Inl (Error ''Handler should be a function'')
   \<and> is_function (reply ''x'') \<and> initalized strictPets \<and> strict strictPets
   \<and> router strictPets = Some petRouter \<and> getOperation petRouter ''nope'' = None
   \<and> res (registerHandler strictPets ''nope'' (reply ''x''))
       = Inl (Error ''Unknown operationId nope. Refusing to register handler'')
   \<and> st (registerHandler strictPets ''nope'' (reply ''x'')) = strictPets
   \<and> initalized (petBackend []) \<and> \<not> strict (petBackend [])
   \<and> res (registerHandler (petBackend []) ''nope'' (reply ''x'')) = Inr ()
   \<and> log (registerHandler (petBackend []) ''nope'' (reply ''x'')) = [Warn ''Unknown operationId nope'']
   \<and> handler_at (st (registerHandler (petBackend []) ''nope'' (reply ''x''))) ''nope'' = reply ''x''
   \<and> \<not> initalized (newBackend [])
   \<and> res (registerHandler (newBackend []) ''nope'' (reply ''x'')) = Inr ()
   \<and> log (registerHandler (newBackend []) ''nope'' (reply ''x'')) = []
   \<and> handler_at (st (registerHandler (newBackend []) ''nope'' (reply ''x''))) ''nope'' = reply ''x''"
proof -
  have nf: "\<not> is_function (NonFn (JStr ''not a function''))"
    and f: "is_function (reply ''x'')"
    by (simp_all add: reply_def)
  have s: "initalized strictPets" "strict strictPets" "router strictPets = Some petRouter"
    and l: "initalized (petBackend [])" "\<not> strict (petBackend [])"
      "router (petBackend []) = Some petRouter"
    and n: "\<not> initalized (newBackend [])"
    and g: "getOperation petRouter ''nope'' = None"
    and k: "''nope'' \<notin> {''notFound'', ''404'', ''notImplemented'', ''501'', ''validationFail'',
                     ''postResponseHandler''}"
    by (simp_all add: strictPets_def petBackend_def newBackend_def petRouter_def)
  have a: "res (registerHandler strictNew ''getPetById'' (NonFn (JStr ''not a function'')))
           = Inl (Error ''Handler should be a function'')"
    using registration_errors [of "NonFn (JStr ''not a function'')" strictNew "''getPetById''"] nf
    by simp
  have b: "res (registerHandler strictPets ''nope'' (reply ''x''))
             = Inl (Error ''Unknown operationId nope. Refusing to register handler'')
           \<and> st (registerHandler strictPets ''nope'' (reply ''x'')) = strictPets"
    using registration_errors [of "reply ''x''" strictPets "''nope''" petRouter] f s g k
    by simp
  have c: "res (registerHandler (petBackend []) ''nope'' (reply ''x'')) = Inr ()
           \<and> log (registerHandler (petBackend []) ''nope'' (reply ''x'')) = [Warn ''Unknown operationId nope'']
           \<and> handler_at (st (registerHandler (petBackend []) ''nope'' (reply ''x''))) ''nope'' = reply ''x''"
    using registration_errors [of "reply ''x''" "petBackend []" "''nope''" petRouter] f l g k
    by simp
  have d: "res (registerHandler (newBackend []) ''nope'' (reply ''x'')) = Inr ()
           \<and> log (registerHandler (newBackend []) ''nope'' (reply ''x'')) = []
           \<and> handler_at (st (registerHandler (newBackend []) ''nope'' (reply ''x''))) ''nope'' = reply ''x''"
    using registration_errors [of "reply ''x''" "newBackend []" "''nope''"] f n
    by simp
  show ?thesis
    using nf f s l n g a b c d by simp
qed

text \<open>
  The second half of C8 without the initialisation: in strict mode, before
  \<^verbatim>\<open>init\<close>, an unknown id is registered, with no error and no warning.
\<close>

theorem registration_errors_counterexample:
  "strict strictNew \<and> \<not> initalized strictNew
   \<and> is_function (reply ''x'')
   \<and> getOperation petRouter ''nope'' = None
   \<and> ''nope'' \<notin> set allowedHandlers
   \<and> res (registerHandler strictNew ''nope'' (reply ''x'')) = Inr ()
   \<and> log (registerHandler strictNew ''nope'' (reply ''x'')) = []
   \<and> handler_at (st (registerHandler strictNew ''nope'' (reply ''x''))) ''nope'' = reply ''x''"
  by (simp add: registerHandler_def store_def handler_at_def allowedHandlers_def strictNew_def
      newBackend_def petRouter_def reply_def)


end
